theory Spec2Isabelle
  imports Main "HOL-Library.Word"
begin

section \<open>Machine types and external constants\<close>

text \<open>
  The pipeline handler is C++ on a platform where \<^verbatim>\<open>unsigned int\<close> has 32 bits and
  \<^verbatim>\<open>uint64_t\<close> 64. Status codes are \<^verbatim>\<open>int\<close>; the source only compares them with zero
  and negates errno constants, so they are modelled as \<^typ>\<open>int\<close>.
\<close>

type_synonym u32 = "32 word"
type_synonym u64 = "64 word"

text \<open>
  Modelled from the spec: the errno values, the media-bus codes and the pixel-format
  fourccs are macros of the system headers \<^verbatim>\<open>errno.h\<close>, \<^verbatim>\<open>linux/media-bus-format.h\<close>,
  \<^verbatim>\<open>linux/media.h\<close> and \<^verbatim>\<open>linux/videodev2.h\<close>, which ipu3.cpp includes and which are not
  part of the sources. They carry the values of those headers; a fourcc is
  \<^verbatim>\<open>a | b << 8 | c << 16 | d << 24\<close> of its four characters.
\<close>

definition ENOENT :: int where "ENOENT = 2"
definition ENOMEM :: int where "ENOMEM = 12"
definition EACCES :: int where "EACCES = 13"
definition EBUSY :: int where "EBUSY = 16"
definition ENODEV :: int where "ENODEV = 19"
definition EINVAL :: int where "EINVAL = 22"

definition MEDIA_BUS_FMT_FIXED :: u32 where "MEDIA_BUS_FMT_FIXED = 0x0001"
definition MEDIA_BUS_FMT_SBGGR10_1X10 :: u32 where "MEDIA_BUS_FMT_SBGGR10_1X10 = 0x3007"
definition MEDIA_BUS_FMT_SGBRG10_1X10 :: u32 where "MEDIA_BUS_FMT_SGBRG10_1X10 = 0x300e"
definition MEDIA_BUS_FMT_SGRBG10_1X10 :: u32 where "MEDIA_BUS_FMT_SGRBG10_1X10 = 0x300a"
definition MEDIA_BUS_FMT_SRGGB10_1X10 :: u32 where "MEDIA_BUS_FMT_SRGGB10_1X10 = 0x300f"

definition MEDIA_ENT_F_CAM_SENSOR :: u32 where "MEDIA_ENT_F_CAM_SENSOR = 0x00020001"

definition V4L2_PIX_FMT_NV12 :: u32 where "V4L2_PIX_FMT_NV12 = 0x3231564e"
definition V4L2_PIX_FMT_IPU3_SBGGR10 :: u32 where "V4L2_PIX_FMT_IPU3_SBGGR10 = 0x62337069"
definition V4L2_PIX_FMT_IPU3_SGBRG10 :: u32 where "V4L2_PIX_FMT_IPU3_SGBRG10 = 0x67337069"
definition V4L2_PIX_FMT_IPU3_SGRBG10 :: u32 where "V4L2_PIX_FMT_IPU3_SGRBG10 = 0x47337069"
definition V4L2_PIX_FMT_IPU3_SRGGB10 :: u32 where "V4L2_PIX_FMT_IPU3_SRGGB10 = 0x72337069"

section \<open>CIO2Device::mediaBusToFormat\<close>

text \<open>
  The \<^verbatim>\<open>switch\<close> of \<^verbatim>\<open>CIO2Device::mediaBusToFormat\<close>. The function returns \<^verbatim>\<open>int\<close>: a
  fourcc is converted from \<^verbatim>\<open>unsigned int\<close> to \<^verbatim>\<open>int\<close> (\<^const>\<open>sint\<close> reads the same 32
  bits as two's complement), the default is \<^verbatim>\<open>-EINVAL\<close>.
\<close>

definition mediaBusToFormat :: "u32 \<Rightarrow> int" where
  "mediaBusToFormat code =
     (if code = MEDIA_BUS_FMT_SBGGR10_1X10 then sint V4L2_PIX_FMT_IPU3_SBGGR10
      else if code = MEDIA_BUS_FMT_SGBRG10_1X10 then sint V4L2_PIX_FMT_IPU3_SGBRG10
      else if code = MEDIA_BUS_FMT_SGRBG10_1X10 then sint V4L2_PIX_FMT_IPU3_SGRBG10
      else if code = MEDIA_BUS_FMT_SRGGB10_1X10 then sint V4L2_PIX_FMT_IPU3_SRGGB10
      else - EINVAL)"

section \<open>Timer (timer.cpp)\<close>

text \<open>
  \<^verbatim>\<open>struct timespec\<close> as \<^verbatim>\<open>clock_gettime(CLOCK_MONOTONIC, &tp)\<close> fills it. Both fields are
  64-bit signed in C; \<^verbatim>\<open>Timer::start\<close> uses them only in unsigned 64-bit arithmetic
  (\<^verbatim>\<open>tp.tv_sec * 1000000000ULL + tp.tv_nsec\<close>), where the conversion keeps the bits, so
  the record holds the bits.
\<close>

record timespec =
  tv_sec :: u64
  tv_nsec :: u64

type_synonym thread_id = nat

text \<open>The member function a queued invocation carries; \<^verbatim>\<open>Timer::message\<close> posts only one.\<close>

datatype invocation = Invoke_registerTimer

datatype message = ThreadMoveMessage | OtherMessage nat

text \<open>The calls a timer makes on its collaborators, in the order it makes them.\<close>

datatype timer_call =
    Call_registerTimer thread_id
  | Call_unregisterTimer thread_id
  | Call_invokeMethod invocation
  | Call_Object_message message

text \<open>
  A timer with the part of its surroundings it acts on. \<open>interval\<close> and \<open>deadline\<close> are
  the members \<^verbatim>\<open>interval_\<close> and \<^verbatim>\<open>deadline_\<close> of \<^verbatim>\<open>Timer\<close> (an Isabelle name cannot end in an
  underscore); \<open>thread\<close> is what \<^verbatim>\<open>Object::thread()\<close> returns.

  Modelled from the spec: \<^verbatim>\<open>EventDispatcher\<close>, \<^verbatim>\<open>Object\<close> and \<^verbatim>\<open>Thread\<close> are not part of the
  sources. A per-thread event dispatcher owns the set of armed timers: \<open>registered\<close> holds
  the threads whose dispatcher has this timer in its set. \<open>invoked\<close> is the queue of
  invocations posted to the timer with \<^verbatim>\<open>invokeMethod\<close> and not yet executed, \<open>timeouts\<close>
  the threads on which the \<^verbatim>\<open>timeout\<close> signal was emitted, oldest first.
\<close>

record timer =
  interval :: u32
  deadline :: u64
  thread :: thread_id
  registered :: "thread_id set"
  invoked :: "invocation list"
  timeouts :: "thread_id list"
  calls :: "timer_call list"

text \<open>
  \<^verbatim>\<open>Timer::Timer\<close>: \<^verbatim>\<open>interval_(0), deadline_(0)\<close>; a new timer is registered nowhere and
  belongs to the thread \<open>th\<close> it is constructed on.
\<close>

definition Timer :: "thread_id \<Rightarrow> timer" where
  "Timer th = \<lparr>interval = 0, deadline = 0, thread = th, registered = {}, invoked = [],
               timeouts = [], calls = []\<rparr>"

text \<open>\<^verbatim>\<open>thread()->eventDispatcher()->registerTimer(this)\<close>\<close>

definition registerTimer :: "timer \<Rightarrow> timer" where
  "registerTimer t =
     t\<lparr>registered := insert (thread t) (registered t),
       calls := calls t @ [Call_registerTimer (thread t)]\<rparr>"

text \<open>\<^verbatim>\<open>thread()->eventDispatcher()->unregisterTimer(this)\<close>\<close>

definition unregisterTimer :: "timer \<Rightarrow> timer" where
  "unregisterTimer t =
     t\<lparr>registered := registered t - {thread t},
       calls := calls t @ [Call_unregisterTimer (thread t)]\<rparr>"

text \<open>
  \<^verbatim>\<open>Timer::start\<close>; \<open>tp\<close> is the time \<^verbatim>\<open>clock_gettime\<close> returned. \<^verbatim>\<open>msec * 1000000ULL\<close>
  widens \<open>msec\<close> to 64 bits before it multiplies.
\<close>

definition start :: "timespec \<Rightarrow> u32 \<Rightarrow> timer \<Rightarrow> timer" where
  "start tp msec t =
     registerTimer
       (t\<lparr>interval := msec,
          deadline := tv_sec tp * 1000000000 + tv_nsec tp + ucast msec * 1000000\<rparr>)"

definition stop :: "timer \<Rightarrow> timer" where
  "stop t = (unregisterTimer t)\<lparr>deadline := 0\<rparr>"

definition isRunning :: "timer \<Rightarrow> bool" where
  "isRunning t \<longleftrightarrow> deadline t \<noteq> 0"

text \<open>
  Modelled from the spec: \<^verbatim>\<open>Object::invokeMethod\<close> is not part of the sources. It posts a
  message carrying the invocation onto the queue of the object's thread; the message is
  executed during that thread's next dispatch round.
\<close>

definition invokeMethod :: "invocation \<Rightarrow> timer \<Rightarrow> timer" where
  "invokeMethod m t =
     t\<lparr>invoked := invoked t @ [m], calls := calls t @ [Call_invokeMethod m]\<rparr>"

text \<open>
  Modelled from the spec: \<^verbatim>\<open>Object::message\<close>, the base class's hook, is not part of the
  sources; it changes nothing of the timer.
\<close>

definition Object_message :: "message \<Rightarrow> timer \<Rightarrow> timer" where
  "Object_message msg t = t\<lparr>calls := calls t @ [Call_Object_message msg]\<rparr>"

text \<open>\<^verbatim>\<open>Timer::message\<close>\<close>

definition message :: "message \<Rightarrow> timer \<Rightarrow> timer" where
  "message msg t =
     Object_message msg
       (if msg = ThreadMoveMessage then
          (if deadline t \<noteq> 0 then invokeMethod Invoke_registerTimer (unregisterTimer t)
           else t)
        else t)"

text \<open>
  Modelled from the spec: moving an object to another thread (\<^verbatim>\<open>Object::moveToThread\<close>,
  not part of the sources) emits a \<^verbatim>\<open>ThreadMoveMessage\<close> to the object's \<^verbatim>\<open>message\<close> hook
  and then makes the target thread the object's thread; the invocations queued for the
  object travel with it.
\<close>

definition moveToThread :: "thread_id \<Rightarrow> timer \<Rightarrow> timer" where
  "moveToThread target t = (message ThreadMoveMessage t)\<lparr>thread := target\<rparr>"

text \<open>
  Modelled from the spec: one dispatch round of the timer's thread first drains the
  message queue; each queued invocation runs its member function on the object.
\<close>

fun run_invocation :: "invocation \<Rightarrow> timer \<Rightarrow> timer" where
  "run_invocation Invoke_registerTimer t = registerTimer t"

definition deliverMessages :: "timer \<Rightarrow> timer" where
  "deliverMessages t = fold run_invocation (invoked t) (t\<lparr>invoked := []\<rparr>)"

text \<open>
  Modelled from the spec: timers fire exclusively from \<^verbatim>\<open>processEvents\<close>, which fires the
  expired timers of the dispatcher's set exactly once each. \<open>processTimers d now\<close> is that
  step of the dispatcher of thread \<open>d\<close> at the monotonic time \<open>now\<close>, for this timer: it
  fires only when the timer is in the set of \<open>d\<close> and its deadline has elapsed; firing
  stops the timer and emits \<^verbatim>\<open>timeout\<close>.
\<close>

definition processTimers :: "thread_id \<Rightarrow> u64 \<Rightarrow> timer \<Rightarrow> timer" where
  "processTimers d now t =
     (if d \<in> registered t \<and> deadline t \<le> now
      then t\<lparr>registered := registered t - {d}, deadline := 0, timeouts := timeouts t @ [d]\<rparr>
      else t)"

section \<open>IPU3 pipeline handler (ipu3.cpp): data\<close>

text \<open>
  Modelled from the spec: the structures below are declared in headers that are not part
  of the sources (\<^verbatim>\<open>geometry.h\<close>, \<^verbatim>\<open>stream.h\<close>, \<^verbatim>\<open>v4l2_subdevice.h\<close>, \<^verbatim>\<open>v4l2_device.h\<close>); each
  record has the members ipu3.cpp reads or writes. Several structures have members
  \<^verbatim>\<open>width\<close> and \<^verbatim>\<open>height\<close>: the unqualified names are those of \<open>StreamConfiguration\<close>, the
  others are written with their record's name. The members \<^verbatim>\<open>x, y, w, h\<close> of \<^verbatim>\<open>Rectangle\<close>
  carry a prefix, so that they stay apart from variables.
\<close>

record Size =
  width :: u32
  height :: u32

record SizeRange =
  minWidth :: u32
  minHeight :: u32
  maxWidth :: u32
  maxHeight :: u32

record Rectangle =
  rect_x :: int
  rect_y :: int
  rect_w :: u32
  rect_h :: u32

record V4L2SubdeviceFormat =
  mbus_code :: u32
  width :: u32
  height :: u32

record V4L2DeviceFormat =
  width :: u32
  height :: u32
  fourcc :: u32
  planesCount :: u32

record StreamConfiguration =
  width :: u32
  height :: u32
  pixelFormat :: u32
  bufferCount :: u32

text \<open>Value initialisation (\<^verbatim>\<open>= {}\<close>, and what \<^verbatim>\<open>std::map::operator[]\<close> inserts).\<close>

definition V4L2SubdeviceFormat_zero :: V4L2SubdeviceFormat where
  "V4L2SubdeviceFormat_zero =
     \<lparr>mbus_code = 0, V4L2SubdeviceFormat.width = 0, V4L2SubdeviceFormat.height = 0\<rparr>"

definition V4L2DeviceFormat_zero :: V4L2DeviceFormat where
  "V4L2DeviceFormat_zero =
     \<lparr>V4L2DeviceFormat.width = 0, V4L2DeviceFormat.height = 0, fourcc = 0, planesCount = 0\<rparr>"

definition StreamConfiguration_zero :: StreamConfiguration where
  "StreamConfiguration_zero = \<lparr>width = 0, height = 0, pixelFormat = 0, bufferCount = 0\<rparr>"

text \<open>
  The V4L2 objects one camera works with. The pointers \<^verbatim>\<open>sensor_\<close>, \<^verbatim>\<open>csi2_\<close> and \<^verbatim>\<open>output_\<close>
  of its \<^verbatim>\<open>CIO2Device\<close> and \<^verbatim>\<open>imgu_\<close>, \<^verbatim>\<open>input_\<close>, \<^verbatim>\<open>output_.dev\<close>, \<^verbatim>\<open>viewfinder_.dev\<close> and
  \<^verbatim>\<open>stat_.dev\<close> of its \<^verbatim>\<open>ImgUDevice\<close> are modelled by the name of the object they point to.
\<close>

datatype subdev = Sensor | Csi2 | Imgu

datatype viddev = Cio2Output | ImguInput | ImguOutput | ImguViewfinder | ImguStat

type_synonym stream_id = nat
type_synonym buffer_id = nat

text \<open>The calls made on the V4L2 objects, with the argument passed in.\<close>

datatype v4l2_call =
    Subdev_setFormat subdev u32 V4L2SubdeviceFormat
  | Subdev_setCrop subdev u32 Rectangle
  | Subdev_setCompose subdev u32 Rectangle
  | Dev_setFormat viddev V4L2DeviceFormat
  | Dev_queueBuffer viddev buffer_id

text \<open>
  Modelled from the spec: \<^verbatim>\<open>V4L2Subdevice\<close> and \<^verbatim>\<open>V4L2Device\<close> are not part of the sources.
  What the devices answer is a parameter of the model. Every answer may depend on the
  calls made so far (the first argument). A format or rectangle is passed by pointer and
  negotiated: the device returns a status and the structure as it leaves it.
  \<open>sensor_formats\<close> is what \<^verbatim>\<open>sensor_->formats(0)\<close> enumerates, in the order of the
  iteration: media-bus codes with their size ranges.
\<close>

record hw =
  subdev_setFormat ::
    "v4l2_call list \<Rightarrow> subdev \<Rightarrow> u32 \<Rightarrow> V4L2SubdeviceFormat \<Rightarrow> int \<times> V4L2SubdeviceFormat"
  subdev_getFormat ::
    "v4l2_call list \<Rightarrow> subdev \<Rightarrow> u32 \<Rightarrow> V4L2SubdeviceFormat \<Rightarrow> int \<times> V4L2SubdeviceFormat"
  subdev_setCrop :: "v4l2_call list \<Rightarrow> subdev \<Rightarrow> u32 \<Rightarrow> Rectangle \<Rightarrow> int \<times> Rectangle"
  subdev_setCompose :: "v4l2_call list \<Rightarrow> subdev \<Rightarrow> u32 \<Rightarrow> Rectangle \<Rightarrow> int \<times> Rectangle"
  dev_setFormat :: "v4l2_call list \<Rightarrow> viddev \<Rightarrow> V4L2DeviceFormat \<Rightarrow> int \<times> V4L2DeviceFormat"
  dev_queueBuffer :: "v4l2_call list \<Rightarrow> viddev \<Rightarrow> buffer_id \<Rightarrow> int"
  sensor_formats :: "(u32 \<times> SizeRange list) list"

text \<open>A call on a device: the answer, and the call appended to the calls made so far.\<close>

definition V4L2Subdevice_setFormat ::
  "hw \<Rightarrow> subdev \<Rightarrow> u32 \<Rightarrow> V4L2SubdeviceFormat \<Rightarrow> v4l2_call list
     \<Rightarrow> int \<times> V4L2SubdeviceFormat \<times> v4l2_call list" where
  "V4L2Subdevice_setFormat env sd p fmt cs =
     (fst (subdev_setFormat env cs sd p fmt), snd (subdev_setFormat env cs sd p fmt),
      cs @ [Subdev_setFormat sd p fmt])"

definition V4L2Subdevice_setCrop ::
  "hw \<Rightarrow> subdev \<Rightarrow> u32 \<Rightarrow> Rectangle \<Rightarrow> v4l2_call list \<Rightarrow> int \<times> Rectangle \<times> v4l2_call list" where
  "V4L2Subdevice_setCrop env sd p r cs =
     (fst (subdev_setCrop env cs sd p r), snd (subdev_setCrop env cs sd p r),
      cs @ [Subdev_setCrop sd p r])"

definition V4L2Subdevice_setCompose ::
  "hw \<Rightarrow> subdev \<Rightarrow> u32 \<Rightarrow> Rectangle \<Rightarrow> v4l2_call list \<Rightarrow> int \<times> Rectangle \<times> v4l2_call list" where
  "V4L2Subdevice_setCompose env sd p r cs =
     (fst (subdev_setCompose env cs sd p r), snd (subdev_setCompose env cs sd p r),
      cs @ [Subdev_setCompose sd p r])"

definition V4L2Device_setFormat ::
  "hw \<Rightarrow> viddev \<Rightarrow> V4L2DeviceFormat \<Rightarrow> v4l2_call list
     \<Rightarrow> int \<times> V4L2DeviceFormat \<times> v4l2_call list" where
  "V4L2Device_setFormat env d fmt cs =
     (fst (dev_setFormat env cs d fmt), snd (dev_setFormat env cs d fmt),
      cs @ [Dev_setFormat d fmt])"

text \<open>\<^verbatim>\<open>class CIO2Device\<close>: the cached maximum size and the code that produces it.\<close>

record CIO2Device =
  mbusCode :: u32
  maxSize :: Size

text \<open>
  \<^verbatim>\<open>struct ImgUOutput\<close> and \<^verbatim>\<open>class ImgUDevice\<close>, with the pad numbers of the class. The
  members \<^verbatim>\<open>output_\<close>, \<^verbatim>\<open>viewfinder_\<close> and \<^verbatim>\<open>stat_\<close> are \<open>imgu_output\<close>, \<open>imgu_viewfinder\<close> and
  \<open>imgu_stat\<close>.
\<close>

definition PAD_INPUT :: u32 where "PAD_INPUT = 0"
definition PAD_OUTPUT :: u32 where "PAD_OUTPUT = 2"
definition PAD_VF :: u32 where "PAD_VF = 3"
definition PAD_STAT :: u32 where "PAD_STAT = 4"

record ImgUOutput =
  dev :: viddev
  pad :: u32
  name :: string

record ImgUDevice =
  index :: nat
  imgu_output :: ImgUOutput
  imgu_viewfinder :: ImgUOutput
  imgu_stat :: ImgUOutput

text \<open>
  \<^verbatim>\<open>configureOutput\<close> takes a pointer to one of the three outputs of the ImgU and compares
  it with \<^verbatim>\<open>&stat_\<close>: the pointer is modelled by the member it points to.
\<close>

datatype ImgUOutput_ptr = Ptr_output | Ptr_viewfinder | Ptr_stat

fun deref :: "ImgUDevice \<Rightarrow> ImgUOutput_ptr \<Rightarrow> ImgUOutput" where
  "deref im Ptr_output = imgu_output im"
| "deref im Ptr_viewfinder = imgu_viewfinder im"
| "deref im Ptr_stat = imgu_stat im"

text \<open>\<^verbatim>\<open>class IPU3CameraData\<close>; \<open>imgu\<close> is the ImgU instance \<^verbatim>\<open>imgu_\<close> points to.\<close>

record IPU3CameraData =
  cio2 :: CIO2Device
  imgu :: ImgUDevice
  stream :: stream_id

section \<open>IPU3 pipeline handler: stream configuration\<close>

text \<open>
  \<^verbatim>\<open>PipelineHandlerIPU3::streamConfiguration\<close>. The argument \<open>streams\<close> is the set the caller
  requests; \<open>cs\<close> are the calls made on the devices so far.
\<close>

definition streamConfiguration ::
  "hw \<Rightarrow> v4l2_call list \<Rightarrow> IPU3CameraData \<Rightarrow> stream_id set
     \<Rightarrow> (stream_id \<rightharpoonup> StreamConfiguration)" where
  "streamConfiguration env cs data streams =
     (let configs = Map.empty;
          (ret, format) = subdev_getFormat env cs Sensor 0 V4L2SubdeviceFormat_zero
      in if ret \<noteq> 0 then configs
         else
           let config = StreamConfiguration_zero;
               config = config\<lparr>width := V4L2SubdeviceFormat.width format\<rparr>;
               config = config\<lparr>height := V4L2SubdeviceFormat.height format\<rparr>;
               config = config\<lparr>pixelFormat := V4L2_PIX_FMT_IPU3_SGRBG10\<rparr>;
               config = config\<lparr>bufferCount := 4\<rparr>
           in configs(stream data \<mapsto> config))"

text \<open>
  The two loops of \<^verbatim>\<open>CIO2Device::configure\<close>, over the size ranges of one code and over
  the codes. The accumulator is the pair of the locals \<^verbatim>\<open>best\<close> and \<^verbatim>\<open>sensorFormat\<close>;
  all arithmetic is that of \<^verbatim>\<open>unsigned int\<close>.
\<close>

fun configure_sizes ::
  "StreamConfiguration \<Rightarrow> u32 \<Rightarrow> u32 \<Rightarrow> SizeRange list \<Rightarrow> u32 \<times> V4L2SubdeviceFormat
     \<Rightarrow> u32 \<times> V4L2SubdeviceFormat" where
  "configure_sizes config imageSize code [] (best, sensorFormat) = (best, sensorFormat)"
| "configure_sizes config imageSize code (sz # sizes) (best, sensorFormat) =
     (if maxWidth sz < width config \<or> maxHeight sz < height config
      then configure_sizes config imageSize code sizes (best, sensorFormat)
      else
        let diff = maxWidth sz * maxHeight sz - imageSize
        in if diff \<ge> best
           then configure_sizes config imageSize code sizes (best, sensorFormat)
           else configure_sizes config imageSize code sizes
                  (diff,
                   sensorFormat\<lparr>V4L2SubdeviceFormat.width := maxWidth sz,
                                V4L2SubdeviceFormat.height := maxHeight sz,
                                mbus_code := code\<rparr>))"

fun configure_formats ::
  "StreamConfiguration \<Rightarrow> u32 \<Rightarrow> (u32 \<times> SizeRange list) list \<Rightarrow> u32 \<times> V4L2SubdeviceFormat
     \<Rightarrow> u32 \<times> V4L2SubdeviceFormat" where
  "configure_formats config imageSize [] acc = acc"
| "configure_formats config imageSize (it # formats) acc =
     (if mediaBusToFormat (fst it) < 0
      then configure_formats config imageSize formats acc
      else configure_formats config imageSize formats
             (configure_sizes config imageSize (fst it) (snd it) acc))"

text \<open>
  \<^verbatim>\<open>CIO2Device::configure\<close>. \<open>outputFormat\<close> is the structure the caller's pointer refers
  to; it is returned as the function leaves it. \<^verbatim>\<open>outputFormat->fourcc\<close> takes the \<^verbatim>\<open>int\<close>
  that \<^verbatim>\<open>mediaBusToFormat\<close> returns, converted to 32 unsigned bits. \<^verbatim>\<open>best\<close> starts as
  \<^verbatim>\<open>~0\<close>, all 32 bits set, which is \<open>- 1\<close> of \<^typ>\<open>u32\<close>.
\<close>

definition CIO2Device_configure ::
  "hw \<Rightarrow> StreamConfiguration \<Rightarrow> V4L2DeviceFormat \<Rightarrow> v4l2_call list
     \<Rightarrow> int \<times> V4L2DeviceFormat \<times> v4l2_call list" where
  "CIO2Device_configure env config outputFormat cs =
     (let imageSize = width config * height config;
          sensorFormat = V4L2SubdeviceFormat_zero;
          best = - 1;
          (best, sensorFormat) =
             configure_formats config imageSize (sensor_formats env) (best, sensorFormat);
          (ret, sensorFormat, cs) = V4L2Subdevice_setFormat env Sensor 0 sensorFormat cs
      in if ret \<noteq> 0 then (ret, outputFormat, cs)
         else
           let (ret, sensorFormat, cs) = V4L2Subdevice_setFormat env Csi2 0 sensorFormat cs
           in if ret \<noteq> 0 then (ret, outputFormat, cs)
              else
                let outputFormat = outputFormat
                      \<lparr>V4L2DeviceFormat.width := V4L2SubdeviceFormat.width sensorFormat,
                       V4L2DeviceFormat.height := V4L2SubdeviceFormat.height sensorFormat,
                       fourcc := word_of_int (mediaBusToFormat (mbus_code sensorFormat)),
                       planesCount := 1\<rparr>;
                    (ret, outputFormat, cs) = V4L2Device_setFormat env Cio2Output outputFormat cs
                in if ret \<noteq> 0 then (ret, outputFormat, cs)
                   else (0, outputFormat, cs))"

text \<open>\<^verbatim>\<open>ImgUDevice::configureInput\<close>; \<open>inputFormat\<close> is passed by pointer.\<close>

definition ImgUDevice_configureInput ::
  "hw \<Rightarrow> ImgUDevice \<Rightarrow> StreamConfiguration \<Rightarrow> V4L2DeviceFormat \<Rightarrow> v4l2_call list
     \<Rightarrow> int \<times> V4L2DeviceFormat \<times> v4l2_call list" where
  "ImgUDevice_configureInput env im config inputFormat cs =
     (let (ret, inputFormat, cs) = V4L2Device_setFormat env ImguInput inputFormat cs
      in if ret \<noteq> 0 then (ret, inputFormat, cs)
         else
           let rect = \<lparr>rect_x = 0, rect_y = 0,
                       rect_w = V4L2DeviceFormat.width inputFormat,
                       rect_h = V4L2DeviceFormat.height inputFormat\<rparr>;
               (ret, rect, cs) = V4L2Subdevice_setCrop env Imgu PAD_INPUT rect cs
           in if ret \<noteq> 0 then (ret, inputFormat, cs)
              else
                let (ret, rect, cs) = V4L2Subdevice_setCompose env Imgu PAD_INPUT rect cs
                in if ret \<noteq> 0 then (ret, inputFormat, cs)
                   else
                     let imguFormat = V4L2SubdeviceFormat_zero;
                         imguFormat = imguFormat\<lparr>V4L2SubdeviceFormat.width := width config\<rparr>;
                         imguFormat = imguFormat\<lparr>V4L2SubdeviceFormat.height := height config\<rparr>;
                         imguFormat = imguFormat\<lparr>mbus_code := MEDIA_BUS_FMT_FIXED\<rparr>;
                         (ret, imguFormat, cs) =
                            V4L2Subdevice_setFormat env Imgu PAD_INPUT imguFormat cs
                     in if ret \<noteq> 0 then (ret, inputFormat, cs)
                        else (0, inputFormat, cs))"

text \<open>\<^verbatim>\<open>ImgUDevice::configureOutput\<close>\<close>

definition ImgUDevice_configureOutput ::
  "hw \<Rightarrow> ImgUDevice \<Rightarrow> ImgUOutput_ptr \<Rightarrow> StreamConfiguration \<Rightarrow> v4l2_call list
     \<Rightarrow> int \<times> v4l2_call list" where
  "ImgUDevice_configureOutput env im out config cs =
     (let d = dev (deref im out);
          p = pad (deref im out);
          imguFormat = V4L2SubdeviceFormat_zero;
          imguFormat = imguFormat\<lparr>V4L2SubdeviceFormat.width := width config\<rparr>;
          imguFormat = imguFormat\<lparr>V4L2SubdeviceFormat.height := height config\<rparr>;
          imguFormat = imguFormat\<lparr>mbus_code := MEDIA_BUS_FMT_FIXED\<rparr>;
          (ret, imguFormat, cs) = V4L2Subdevice_setFormat env Imgu p imguFormat cs
      in if ret \<noteq> 0 then (ret, cs)
         else if out = Ptr_stat then (0, cs)
         else
           let outputFormat = V4L2DeviceFormat_zero;
               outputFormat = outputFormat\<lparr>V4L2DeviceFormat.width := width config\<rparr>;
               outputFormat = outputFormat\<lparr>V4L2DeviceFormat.height := height config\<rparr>;
               outputFormat = outputFormat\<lparr>fourcc := V4L2_PIX_FMT_NV12\<rparr>;
               outputFormat = outputFormat\<lparr>planesCount := 2\<rparr>;
               (ret, outputFormat, cs) = V4L2Device_setFormat env d outputFormat cs
           in if ret \<noteq> 0 then (ret, cs)
              else (0, cs))"

text \<open>
  \<^verbatim>\<open>std::map::operator[]\<close> on the caller's configuration map: the entry of the key, value
  initialised and inserted when the key is absent.
\<close>

definition map_subscript ::
  "(stream_id \<rightharpoonup> StreamConfiguration) \<Rightarrow> stream_id
     \<Rightarrow> StreamConfiguration \<times> (stream_id \<rightharpoonup> StreamConfiguration)" where
  "map_subscript config k =
     (case config k of
        Some c \<Rightarrow> (c, config)
      | None \<Rightarrow> (StreamConfiguration_zero, config(k \<mapsto> StreamConfiguration_zero)))"

text \<open>
  What \<^verbatim>\<open>configureStreams\<close> can change: the calls made on the devices, the caller's map
  (passed by reference) and the camera's data.
\<close>

record pipeline =
  v4l2_calls :: "v4l2_call list"
  config_map :: "stream_id \<rightharpoonup> StreamConfiguration"
  camera_data :: IPU3CameraData

text \<open>\<^verbatim>\<open>PipelineHandlerIPU3::configureStreams\<close>\<close>

definition configureStreams :: "hw \<Rightarrow> pipeline \<Rightarrow> int \<times> pipeline" where
  "configureStreams env s =
     (let data = camera_data s;
          (cfg, config) = map_subscript (config_map s) (stream data);
          s = s\<lparr>config_map := config\<rparr>
      in if width cfg mod 8 \<noteq> 0 \<or> height cfg mod 4 \<noteq> 0 then (- EINVAL, s)
         else if width cfg > Size.width (maxSize (cio2 data)) \<or>
                 height cfg > Size.height (maxSize (cio2 data)) then (- EINVAL, s)
         else
           let cio2Format = V4L2DeviceFormat_zero;
               (ret, cio2Format, cs) = CIO2Device_configure env cfg cio2Format (v4l2_calls s)
           in if ret \<noteq> 0 then (ret, s\<lparr>v4l2_calls := cs\<rparr>)
              else
                let (ret, cio2Format, cs) =
                      ImgUDevice_configureInput env (imgu data) cfg cio2Format cs
                in if ret \<noteq> 0 then (ret, s\<lparr>v4l2_calls := cs\<rparr>)
                   else
                     let (ret, cs) = ImgUDevice_configureOutput env (imgu data) Ptr_output cfg cs
                     in if ret \<noteq> 0 then (ret, s\<lparr>v4l2_calls := cs\<rparr>)
                        else
                          let (ret, cs) =
                                ImgUDevice_configureOutput env (imgu data) Ptr_viewfinder cfg cs
                          in if ret \<noteq> 0 then (ret, s\<lparr>v4l2_calls := cs\<rparr>)
                             else
                               let (ret, cs) =
                                     ImgUDevice_configureOutput env (imgu data) Ptr_stat cfg cs
                               in if ret \<noteq> 0 then (ret, s\<lparr>v4l2_calls := cs\<rparr>)
                                  else (0, s\<lparr>v4l2_calls := cs\<rparr>))"

section \<open>IPU3 pipeline handler: the selection of the sensor format, specified\<close>

text \<open>
  The qualifying formats of \<^verbatim>\<open>CIO2Device::configure\<close> in the order of the enumeration: the
  pairs of a media-bus code the CIO2 can consume (\<^verbatim>\<open>mediaBusToFormat\<close> is not negative) and
  one of its size ranges whose maximum is at least the requested size in both dimensions.
\<close>

definition candidates ::
  "StreamConfiguration \<Rightarrow> (u32 \<times> SizeRange list) list \<Rightarrow> (u32 \<times> SizeRange) list" where
  "candidates config formats =
     concat (map (\<lambda>it. if mediaBusToFormat (fst it) < 0 then []
                        else map (Pair (fst it))
                               (filter (\<lambda>sz. maxWidth sz \<ge> width config \<and>
                                              maxHeight sz \<ge> height config) (snd it)))
                 formats)"

text \<open>
  The excess pixel area of a candidate, \<^verbatim>\<open>size.maxWidth * size.maxHeight - imageSize\<close>, in
  the arithmetic of \<^verbatim>\<open>unsigned int\<close>, and the sensor format a candidate stands for.
\<close>

definition excess :: "StreamConfiguration \<Rightarrow> u32 \<times> SizeRange \<Rightarrow> u32" where
  "excess config c = maxWidth (snd c) * maxHeight (snd c) - width config * height config"

definition format_of :: "u32 \<times> SizeRange \<Rightarrow> V4L2SubdeviceFormat" where
  "format_of c =
     \<lparr>mbus_code = fst c, V4L2SubdeviceFormat.width = maxWidth (snd c),
      V4L2SubdeviceFormat.height = maxHeight (snd c)\<rparr>"

text \<open>
  The candidate at index \<open>i\<close> has the least excess of all candidates, and no candidate
  before it has the same excess: it is the first found among the minimal ones.
\<close>

definition first_minimal :: "StreamConfiguration \<Rightarrow> (u32 \<times> SizeRange) list \<Rightarrow> nat \<Rightarrow> bool" where
  "first_minimal config cands i \<longleftrightarrow>
     i < length cands
     \<and> (\<forall>j < length cands. excess config (cands ! i) \<le> excess config (cands ! j))
     \<and> (\<forall>j < i. excess config (cands ! j) \<noteq> excess config (cands ! i))"

text \<open>One turn of the inner loop on a candidate, on the pair of \<^verbatim>\<open>best\<close> and \<^verbatim>\<open>sensorFormat\<close>.\<close>

definition try_candidate :: "StreamConfiguration \<Rightarrow> u32 \<times> SizeRange \<Rightarrow> u32 \<times> V4L2SubdeviceFormat
    \<Rightarrow> u32 \<times> V4L2SubdeviceFormat" where
  "try_candidate config c acc = (if excess config c \<ge> fst acc then acc else (excess config c, format_of c))"

text \<open>
  Devices that accept every format and rectangle as it is passed: each call returns 0 and
  leaves the structure unchanged.
\<close>

definition accepting :: "hw \<Rightarrow> bool" where
  "accepting env \<longleftrightarrow>
     (\<forall>cs sd p f. subdev_setFormat env cs sd p f = (0, f))
     \<and> (\<forall>cs sd p r. subdev_setCrop env cs sd p r = (0, r))
     \<and> (\<forall>cs sd p r. subdev_setCompose env cs sd p r = (0, r))
     \<and> (\<forall>cs d f. dev_setFormat env cs d f = (0, f))"

text \<open>
  The ImgU instance \<open>n\<close> as \<^verbatim>\<open>ImgUDevice::init\<close> leaves it when every device opens: the three
  outputs with their video devices, pads and names.
\<close>

definition ImgUDevice_ready :: "nat \<Rightarrow> ImgUDevice" where
  "ImgUDevice_ready n =
     \<lparr>index = n,
      imgu_output = \<lparr>dev = ImguOutput, pad = PAD_OUTPUT, name = ''output''\<rparr>,
      imgu_viewfinder = \<lparr>dev = ImguViewfinder, pad = PAD_VF, name = ''viewfinder''\<rparr>,
      imgu_stat = \<lparr>dev = ImguStat, pad = PAD_STAT, name = ''stat''\<rparr>\<rparr>"

text \<open>
  A concrete camera for the examples: a sensor that lists three sizes of one Bayer code and
  reports 2592x1944 as its current format, devices that accept every call, the ImgU
  instance 0, and the stream 0.
\<close>

definition example_hw :: hw where
  "example_hw =
     \<lparr>subdev_setFormat = (\<lambda>cs sd p f. (0, f)),
      subdev_getFormat = (\<lambda>cs sd p f.
         (0, \<lparr>mbus_code = MEDIA_BUS_FMT_SGRBG10_1X10,
              V4L2SubdeviceFormat.width = 2592, V4L2SubdeviceFormat.height = 1944\<rparr>)),
      subdev_setCrop = (\<lambda>cs sd p r. (0, r)),
      subdev_setCompose = (\<lambda>cs sd p r. (0, r)),
      dev_setFormat = (\<lambda>cs d f. (0, f)),
      dev_queueBuffer = (\<lambda>cs d b. 0),
      sensor_formats =
        [(MEDIA_BUS_FMT_SGRBG10_1X10,
          [\<lparr>minWidth = 2592, minHeight = 1944, maxWidth = 2592, maxHeight = 1944\<rparr>,
           \<lparr>minWidth = 1296, minHeight = 972, maxWidth = 1296, maxHeight = 972\<rparr>,
           \<lparr>minWidth = 1280, minHeight = 720, maxWidth = 1280, maxHeight = 720\<rparr>])]\<rparr>"

definition example_data :: IPU3CameraData where
  "example_data =
     \<lparr>cio2 = \<lparr>mbusCode = V4L2_PIX_FMT_IPU3_SGRBG10,
              maxSize = \<lparr>Size.width = 2592, Size.height = 1944\<rparr>\<rparr>,
      imgu = ImgUDevice_ready 0,
      stream = 0\<rparr>"

definition example_pipeline :: "StreamConfiguration \<Rightarrow> pipeline" where
  "example_pipeline cfg =
     \<lparr>v4l2_calls = [], config_map = [0 \<mapsto> cfg], camera_data = example_data\<rparr>"



section \<open>IPU3 pipeline handler: requests and completion\<close>

text \<open>
  Modelled from the spec: \<^verbatim>\<open>Request\<close> is not part of the sources. A request is an object
  (\<open>request_id\<close> tells two requests apart) with a map from streams to buffers, held as
  the list of its entries; \<^verbatim>\<open>findBuffer(stream)\<close> is the buffer the map has for the stream,
  or null.
\<close>

record Request =
  request_id :: nat
  buffers :: "(stream_id \<times> buffer_id) list"

definition findBuffer :: "Request \<Rightarrow> stream_id \<Rightarrow> buffer_id option" where
  "findBuffer request st = map_of (buffers request) st"

text \<open>The signals of the camera.\<close>

datatype camera_signal =
    BufferCompleted Request buffer_id
  | RequestCompleted Request

text \<open>
  What queueing and completion act on. \<open>queuedRequests\<close> is the FIFO
  \<^verbatim>\<open>CameraData::queuedRequests_\<close> of the camera, \<open>signals\<close> the signals the camera emitted,
  oldest first, \<open>capture_calls\<close> the calls made on the devices.

  Modelled from the spec: the CIO2 output device (\<^verbatim>\<open>V4L2Device\<close>, not part of the sources)
  holds the buffers queued to it and completes them in the order they were queued;
  \<open>dev_queue\<close> are the buffers it holds, oldest first.
\<close>

record capture =
  queuedRequests :: "Request list"
  dev_queue :: "buffer_id list"
  signals :: "camera_signal list"
  capture_calls :: "v4l2_call list"

definition capture_init :: capture where
  "capture_init = \<lparr>queuedRequests = [], dev_queue = [], signals = [], capture_calls = []\<rparr>"

text \<open>
  Modelled from the spec: \<^verbatim>\<open>V4L2Device::queueBuffer\<close> returns what the device answers, 0 on
  success and a negative error code otherwise; a buffer the device did not refuse with a
  negative code joins the buffers it holds.
\<close>

definition V4L2Device_queueBuffer ::
  "hw \<Rightarrow> viddev \<Rightarrow> buffer_id \<Rightarrow> capture \<Rightarrow> int \<times> capture" where
  "V4L2Device_queueBuffer env d buffer s =
     (let ret = dev_queueBuffer env (capture_calls s) d buffer
      in (ret,
          s\<lparr>capture_calls := capture_calls s @ [Dev_queueBuffer d buffer],
            dev_queue := (if ret < 0 then dev_queue s else dev_queue s @ [buffer])\<rparr>))"

text \<open>
  Modelled from the spec: the base class \<^verbatim>\<open>PipelineHandler\<close> is not part of the sources.
  Its \<^verbatim>\<open>queueRequest\<close> appends the request to the per-camera queued FIFO; its
  \<^verbatim>\<open>completeBuffer\<close> attaches the completed buffer to the request and emits
  \<^verbatim>\<open>bufferCompleted\<close> (the emitted signal is the record of the attachment); its
  \<^verbatim>\<open>completeRequest\<close>, if every stream in the request is now completed, pops the request
  from the FIFO and emits \<^verbatim>\<open>requestCompleted\<close>. A stream of the request is completed when
  \<^verbatim>\<open>bufferCompleted\<close> was emitted for the request and the buffer it has for the stream.
\<close>

definition PipelineHandler_queueRequest :: "Request \<Rightarrow> capture \<Rightarrow> capture" where
  "PipelineHandler_queueRequest request s = s\<lparr>queuedRequests := queuedRequests s @ [request]\<rparr>"

definition PipelineHandler_completeBuffer :: "Request \<Rightarrow> buffer_id \<Rightarrow> capture \<Rightarrow> capture" where
  "PipelineHandler_completeBuffer request buffer s =
     s\<lparr>signals := signals s @ [BufferCompleted request buffer]\<rparr>"

definition every_stream_completed :: "Request \<Rightarrow> capture \<Rightarrow> bool" where
  "every_stream_completed request s \<longleftrightarrow>
     list_all (\<lambda>(st, buffer). BufferCompleted request buffer \<in> set (signals s))
       (buffers request)"

definition PipelineHandler_completeRequest :: "Request \<Rightarrow> capture \<Rightarrow> capture" where
  "PipelineHandler_completeRequest request s =
     (if every_stream_completed request s
      then s\<lparr>queuedRequests := tl (queuedRequests s),
             signals := signals s @ [RequestCompleted request]\<rparr>
      else s)"

text \<open>\<^verbatim>\<open>PipelineHandlerIPU3::queueRequest\<close>\<close>

definition queueRequest :: "hw \<Rightarrow> IPU3CameraData \<Rightarrow> Request \<Rightarrow> capture \<Rightarrow> int \<times> capture" where
  "queueRequest env data request s =
     (case findBuffer request (stream data) of
        None \<Rightarrow> (- ENOENT, s)
      | Some buffer \<Rightarrow>
          let (ret, s) = V4L2Device_queueBuffer env Cio2Output buffer s
          in if ret < 0 then (ret, s)
             else (0, PipelineHandler_queueRequest request s))"

text \<open>
  \<^verbatim>\<open>IPU3CameraData::bufferReady\<close>, the completion slot. \<^verbatim>\<open>queuedRequests_.front()\<close> of an
  empty FIFO is undefined behaviour: the model has no result there.
\<close>

definition bufferReady :: "buffer_id \<Rightarrow> capture \<Rightarrow> capture option" where
  "bufferReady buffer s =
     (case queuedRequests s of
        [] \<Rightarrow> None
      | request # _ \<Rightarrow>
          Some (PipelineHandler_completeRequest request
                 (PipelineHandler_completeBuffer request buffer s)))"

text \<open>
  Modelled from the spec: the device completes the oldest buffer it holds and emits its
  \<^verbatim>\<open>bufferReady\<close> signal, which \<^verbatim>\<open>registerCameras\<close> connected to the completion slot. A device
  that holds no buffer completes none.
\<close>

definition device_completes :: "capture \<Rightarrow> capture option" where
  "device_completes s =
     (case dev_queue s of
        [] \<Rightarrow> Some s
      | buffer # held \<Rightarrow> bufferReady buffer (s\<lparr>dev_queue := held\<rparr>))"

text \<open>
  What happens to a running camera, with no stop in between: the application queues a
  request, or the device completes a buffer.
\<close>

datatype capture_event = Ev_queueRequest Request | Ev_bufferReady

fun run :: "hw \<Rightarrow> IPU3CameraData \<Rightarrow> capture_event list \<Rightarrow> capture \<Rightarrow> capture option" where
  "run env data [] s = Some s"
| "run env data (Ev_queueRequest request # es) s =
     run env data es (snd (queueRequest env data request s))"
| "run env data (Ev_bufferReady # es) s =
     (case device_completes s of None \<Rightarrow> None | Some s' \<Rightarrow> run env data es s')"

text \<open>The requests for which \<^verbatim>\<open>queueRequest\<close> returned 0 during a run, in the order of the calls.\<close>

fun accepted :: "hw \<Rightarrow> IPU3CameraData \<Rightarrow> capture_event list \<Rightarrow> capture \<Rightarrow> Request list" where
  "accepted env data [] s = []"
| "accepted env data (Ev_queueRequest request # es) s =
     (if fst (queueRequest env data request s) = 0 then [request] else [])
     @ accepted env data es (snd (queueRequest env data request s))"
| "accepted env data (Ev_bufferReady # es) s =
     (case device_completes s of None \<Rightarrow> [] | Some s' \<Rightarrow> accepted env data es s')"

text \<open>The requests whose \<^verbatim>\<open>requestCompleted\<close> was emitted, in the order of emission.\<close>

fun completed_requests :: "camera_signal list \<Rightarrow> Request list" where
  "completed_requests [] = []"
| "completed_requests (RequestCompleted request # sigs) = request # completed_requests sigs"
| "completed_requests (BufferCompleted request buffer # sigs) = completed_requests sigs"

text \<open>
  Every \<^verbatim>\<open>requestCompleted\<close> in a list of signals comes after a \<^verbatim>\<open>bufferCompleted\<close> of the same
  request for each buffer the request has for a stream.
\<close>

definition complete_before :: "camera_signal list \<Rightarrow> bool" where
  "complete_before sigs \<longleftrightarrow>
     (\<forall>i < length sigs. \<forall>request. sigs ! i = RequestCompleted request \<longrightarrow>
        (\<forall>(st, buffer) \<in> set (buffers request).
           (\<exists>j < i. sigs ! j = BufferCompleted request buffer)))"

text \<open>
  The requests of a list of events, and the requests a camera with the single stream of
  \<open>data\<close> can be given: \<^verbatim>\<open>registerCameras\<close> creates the camera with that stream alone, so a
  request of the camera has buffers for no other stream, and, its buffers being a map, at
  most one entry for a stream.
\<close>

fun requests_of :: "capture_event list \<Rightarrow> Request list" where
  "requests_of [] = []"
| "requests_of (Ev_queueRequest request # es) = request # requests_of es"
| "requests_of (Ev_bufferReady # es) = requests_of es"

definition request_of_camera :: "IPU3CameraData \<Rightarrow> Request \<Rightarrow> bool" where
  "request_of_camera data request \<longleftrightarrow>
     set (map fst (buffers request)) \<subseteq> {stream data} \<and> distinct (map fst (buffers request))"

text \<open>
  Modelled from the spec: the error codes the interface documents (invalid-argument,
  invalid-state, no-device, no-memory, busy) as errno values; \<^verbatim>\<open>EACCES\<close> is what the camera
  returns for an operation in the wrong state.
\<close>

definition documented_errors :: "int set" where
  "documented_errors = {EINVAL, EACCES, ENODEV, ENOMEM, EBUSY}"

text \<open>
  The invariant of a running camera: the buffers the device holds are, in order, the
  buffers the queued requests have for the camera's stream, and every queued request is
  one of the camera.
\<close>

definition fifo_inv :: "IPU3CameraData \<Rightarrow> capture \<Rightarrow> bool" where
  "fifo_inv data s \<longleftrightarrow>
     map (\<lambda>request. findBuffer request (stream data)) (queuedRequests s)
       = map Some (dev_queue s)
     \<and> (\<forall>request \<in> set (queuedRequests s). request_of_camera data request)"

text \<open>Examples: a device that refuses every buffer, and a request with one buffer for stream 0.\<close>

definition refusing_hw :: hw where
  "refusing_hw = example_hw\<lparr>dev_queueBuffer := (\<lambda>cs d b. - EBUSY)\<rparr>"

definition example_request :: "nat \<Rightarrow> buffer_id \<Rightarrow> Request" where
  "example_request n buffer = \<lparr>request_id = n, buffers = [(0, buffer)]\<rparr>"

section \<open>IPU3 pipeline handler: matching and camera registration\<close>

text \<open>
  Modelled from the spec: \<^verbatim>\<open>MediaDevice\<close>, \<^verbatim>\<open>MediaEntity\<close>, \<^verbatim>\<open>MediaPad\<close> and \<^verbatim>\<open>MediaLink\<close> are not
  part of the sources. An entity exposes pads, a pad its links. A link at the sink pad of
  a CSI-2 receiver is given with what \<^verbatim>\<open>CIO2Device::init\<close> reads through it: the function
  of the entity at its source, what \<^verbatim>\<open>setEnabled(true)\<close> returns, and what \<^verbatim>\<open>open()\<close> and
  \<^verbatim>\<open>formats(0)\<close> of the sub-device of that entity return.
\<close>

record MediaLink =
  source_function :: u32
  setEnabled_ret :: int
  source_open_ret :: int
  source_formats :: "(u32 \<times> SizeRange list) list"

type_synonym MediaPad = "MediaLink list"
type_synonym MediaEntity = "MediaPad list"

text \<open>
  The two media devices as the pipeline handler finds them. For the receiver \<open>n\<close>:
  \<open>csi2_entity n\<close> is the entity \<^verbatim>\<open>ipu3-csi2 n\<close>, \<open>csi2_open_ret n\<close> and \<open>cio2_open_ret n\<close> are
  what \<^verbatim>\<open>open()\<close> returns on its sub-device and on the video device \<^verbatim>\<open>ipu3-cio2 n\<close>. For the
  ImgU instance \<open>n\<close>: \<open>imgu_subdev_open_ret n\<close> is what \<^verbatim>\<open>open()\<close> returns on \<^verbatim>\<open>ipu3-imgu n\<close>,
  \<open>imgu_dev_open_ret n d\<close> on its video device \<open>d\<close>. \<open>uninit_mbusCode\<close> is the value the
  member \<^verbatim>\<open>mbusCode_\<close> holds before \<^verbatim>\<open>init\<close> assigns it: the constructor leaves it
  uninitialised.
\<close>

record media =
  csi2_entity :: "nat \<Rightarrow> MediaEntity"
  csi2_open_ret :: "nat \<Rightarrow> int"
  cio2_open_ret :: "nat \<Rightarrow> int"
  imgu_subdev_open_ret :: "nat \<Rightarrow> int"
  imgu_dev_open_ret :: "nat \<Rightarrow> viddev \<Rightarrow> int"
  uninit_mbusCode :: u32

text \<open>
  \<^verbatim>\<open>ImgUDevice::init\<close>: the five devices are opened in turn, and the first \<^verbatim>\<open>open()\<close> that
  does not return 0 ends the function with that value (\<open>Inl\<close>). With every device open
  the instance is complete (\<open>Inr\<close>).
\<close>

definition ImgUDevice_init :: "media \<Rightarrow> nat \<Rightarrow> int + ImgUDevice" where
  "ImgUDevice_init m n =
     (let ret = imgu_subdev_open_ret m n in
      if ret \<noteq> 0 then Inl ret
      else
        let ret = imgu_dev_open_ret m n ImguInput in
        if ret \<noteq> 0 then Inl ret
        else
          let ret = imgu_dev_open_ret m n ImguOutput in
          if ret \<noteq> 0 then Inl ret
          else
            let ret = imgu_dev_open_ret m n ImguViewfinder in
            if ret \<noteq> 0 then Inl ret
            else
              let ret = imgu_dev_open_ret m n ImguStat in
              if ret \<noteq> 0 then Inl ret
              else Inr (ImgUDevice_ready n))"

text \<open>
  The loops of \<^verbatim>\<open>CIO2Device::init\<close> that cache the maximum size: over the size ranges of one
  code, with the \<^verbatim>\<open>int\<close> that \<^verbatim>\<open>mediaBusToFormat\<close> returned for it, and over the codes.
\<close>

fun init_sizes :: "int \<Rightarrow> SizeRange list \<Rightarrow> CIO2Device \<Rightarrow> CIO2Device" where
  "init_sizes code [] d = d"
| "init_sizes code (sz # sizes) d =
     (if Size.width (maxSize d) < maxWidth sz \<and> Size.height (maxSize d) < maxHeight sz
      then init_sizes code sizes
             (d\<lparr>maxSize := \<lparr>Size.width = maxWidth sz, Size.height = maxHeight sz\<rparr>,
                mbusCode := word_of_int code\<rparr>)
      else init_sizes code sizes d)"

fun init_formats :: "(u32 \<times> SizeRange list) list \<Rightarrow> CIO2Device \<Rightarrow> CIO2Device" where
  "init_formats [] d = d"
| "init_formats (it # formats) d =
     (if mediaBusToFormat (fst it) < 0 then init_formats formats d
      else init_formats formats (init_sizes (mediaBusToFormat (fst it)) (snd it) d))"

text \<open>
  \<^verbatim>\<open>CIO2Device::init\<close> on a new \<^verbatim>\<open>CIO2Device\<close> (the maximum size is 0x0). A return value other
  than 0 is \<open>Inl\<close>; on success the device with its cached maximum size is \<open>Inr\<close>.
\<close>

definition CIO2Device_init :: "media \<Rightarrow> nat \<Rightarrow> int + CIO2Device" where
  "CIO2Device_init m n =
     (case csi2_entity m n of
        [] \<Rightarrow> Inl (- ENODEV)
      | sink # _ \<Rightarrow>
          (case sink of
             [] \<Rightarrow> Inl (- ENODEV)
           | link # _ \<Rightarrow>
               if source_function link \<noteq> MEDIA_ENT_F_CAM_SENSOR then Inl (- ENODEV)
               else
                 let ret = setEnabled_ret link in
                 if ret \<noteq> 0 then Inl ret
                 else
                   let ret = source_open_ret link in
                   if ret \<noteq> 0 then Inl ret
                   else
                     let d = init_formats (source_formats link)
                               \<lparr>mbusCode = uninit_mbusCode m,
                                maxSize = \<lparr>Size.width = 0, Size.height = 0\<rparr>\<rparr>
                     in if Size.width (maxSize d) = 0 then Inl (- ENODEV)
                        else
                          let ret = csi2_open_ret m n in
                          if ret \<noteq> 0 then Inl ret
                          else
                            let ret = cio2_open_ret m n in
                            if ret \<noteq> 0 then Inl ret
                            else Inr d))"

text \<open>
  A registered camera: the id of its CSI-2 receiver (the camera's name ends in it) and its
  data. The \<^verbatim>\<open>Stream\<close> object of a camera is a member of its data; the stream of the camera
  at receiver \<open>n\<close> is named \<open>n\<close>.
\<close>

record registered_camera =
  receiver :: nat
  data_of :: IPU3CameraData

text \<open>
  The loop of \<^verbatim>\<open>registerCameras\<close>, from \<open>id\<close> on with \<open>numCameras\<close> cameras registered so far.
\<close>

function registerCameras_loop ::
  "media \<Rightarrow> ImgUDevice \<Rightarrow> ImgUDevice \<Rightarrow> nat \<Rightarrow> nat \<Rightarrow> registered_camera list
     \<Rightarrow> nat \<times> registered_camera list" where
  "registerCameras_loop m imgu0 imgu1 n numCameras cams =
     (if n < 4 \<and> numCameras < 2 then
        (case CIO2Device_init m n of
           Inl ret \<Rightarrow> registerCameras_loop m imgu0 imgu1 (n + 1) numCameras cams
         | Inr d \<Rightarrow>
             registerCameras_loop m imgu0 imgu1 (n + 1) (numCameras + 1)
               (cams @ [\<lparr>receiver = n,
                         data_of = \<lparr>cio2 = d,
                                    imgu = (if numCameras \<noteq> 0 then imgu1 else imgu0),
                                    stream = n\<rparr>\<rparr>]))
      else (numCameras, cams))"
  by pat_completeness auto
termination
  by (relation "measure (\<lambda>(m, imgu0, imgu1, n, numCameras, cams). 4 - n)") auto

declare registerCameras_loop.simps [simp del]

text \<open>\<^verbatim>\<open>PipelineHandlerIPU3::registerCameras\<close>: the return value and the cameras registered.\<close>

definition registerCameras :: "media \<Rightarrow> int \<times> registered_camera list" where
  "registerCameras m =
     (case ImgUDevice_init m 0 of
        Inl ret \<Rightarrow> (ret, [])
      | Inr imgu0 \<Rightarrow>
          (case ImgUDevice_init m 1 of
             Inl ret \<Rightarrow> (ret, [])
           | Inr imgu1 \<Rightarrow>
               let (numCameras, cams) = registerCameras_loop m imgu0 imgu1 0 0 []
               in (if numCameras \<noteq> 0 then 0 else - ENODEV, cams)))"

text \<open>
  Modelled from the spec: \<^verbatim>\<open>DeviceEnumerator\<close> and \<^verbatim>\<open>MediaDevice\<close> are not part of the sources.
  \<open>cio2_found\<close> and \<open>imgu_found\<close> say whether \<^verbatim>\<open>search\<close> returned a media device for the
  CIO2 and for the ImgU entity names; \<open>open_ret\<close> and \<open>disableLinks_ret\<close> are what \<^verbatim>\<open>open()\<close>
  and \<^verbatim>\<open>disableLinks()\<close> return on each; \<open>devices\<close> is what the two hold. The local \<^verbatim>\<open>ret\<close>
  of \<^verbatim>\<open>match\<close> is declared without a value: \<open>uninit_ret\<close> is the value it holds until it is
  assigned.
\<close>

datatype media_dev = Cio2Media | ImguMedia

datatype media_call =
    Acquire media_dev
  | Open media_dev
  | DisableLinks media_dev
  | Close media_dev

record enumerator =
  cio2_found :: bool
  imgu_found :: bool
  open_ret :: "media_dev \<Rightarrow> int"
  disableLinks_ret :: "media_dev \<Rightarrow> int"
  devices :: media
  uninit_ret :: int

text \<open>
  \<^verbatim>\<open>PipelineHandlerIPU3::match\<close>: the result, the calls made on the two media devices, and
  the cameras registered. When \<^verbatim>\<open>disableLinks()\<close> fails on the ImgU media device the function
  jumps to \<^verbatim>\<open>error:\<close> past the only assignment to \<^verbatim>\<open>ret\<close>, and \<^verbatim>\<open>return ret == 0\<close> reads
  the variable as it was declared.
\<close>

definition match :: "enumerator \<Rightarrow> bool \<times> media_call list \<times> registered_camera list" where
  "match e =
     (if \<not> cio2_found e then (False, [], [])
      else
        let cs = [Acquire Cio2Media] in
        if \<not> imgu_found e then (False, cs, [])
        else
          let cs = cs @ [Acquire ImguMedia];
              cs = cs @ [Open Cio2Media]
          in if open_ret e Cio2Media \<noteq> 0 then (False, cs, [])
             else
               let cs = cs @ [DisableLinks Cio2Media]
               in if disableLinks_ret e Cio2Media \<noteq> 0 then (False, cs @ [Close Cio2Media], [])
                  else
                    let cs = cs @ [Open ImguMedia]
                    in if open_ret e ImguMedia \<noteq> 0 then (False, cs @ [Close Cio2Media], [])
                       else
                         let cs = cs @ [DisableLinks ImguMedia];
                             (ret, cams) =
                                (if disableLinks_ret e ImguMedia \<noteq> 0 then (uninit_ret e, [])
                                 else registerCameras (devices e));
                             cs = cs @ [Close Cio2Media, Close ImguMedia]
                         in (ret = 0, cs, cams))"

text \<open>
  Examples. Four receivers: no link at receiver 0, a sensor at 1 and 3, an entity that is
  no sensor at 2; every \<^verbatim>\<open>open()\<close> returns 0. An enumerator that finds both media devices,
  on which everything succeeds but \<^verbatim>\<open>disableLinks()\<close> of the ImgU media device.
\<close>

definition sensor_link :: MediaLink where
  "sensor_link =
     \<lparr>source_function = MEDIA_ENT_F_CAM_SENSOR, setEnabled_ret = 0, source_open_ret = 0,
      source_formats = sensor_formats example_hw\<rparr>"

definition example_media :: media where
  "example_media =
     \<lparr>csi2_entity = (\<lambda>n. if n = 0 then [[]]
                          else if n = 2 then [[sensor_link\<lparr>source_function := 0x00020002\<rparr>]]
                          else [[sensor_link]]),
      csi2_open_ret = (\<lambda>n. 0),
      cio2_open_ret = (\<lambda>n. 0),
      imgu_subdev_open_ret = (\<lambda>n. 0),
      imgu_dev_open_ret = (\<lambda>n d. 0),
      uninit_mbusCode = 0\<rparr>"

definition example_enumerator :: enumerator where
  "example_enumerator =
     \<lparr>cio2_found = True, imgu_found = True, open_ret = (\<lambda>d. 0),
      disableLinks_ret = (\<lambda>d. if d = ImguMedia then - 1 else 0),
      devices = example_media, uninit_ret = 0\<rparr>"

section \<open>Theorems\<close>

lemmas errno_defs = ENOENT_def ENOMEM_def EACCES_def EBUSY_def ENODEV_def EINVAL_def

lemmas mbus_defs =
  MEDIA_BUS_FMT_FIXED_def MEDIA_BUS_FMT_SBGGR10_1X10_def MEDIA_BUS_FMT_SGBRG10_1X10_def
  MEDIA_BUS_FMT_SGRBG10_1X10_def MEDIA_BUS_FMT_SRGGB10_1X10_def

lemmas fourcc_defs =
  V4L2_PIX_FMT_NV12_def V4L2_PIX_FMT_IPU3_SBGGR10_def V4L2_PIX_FMT_IPU3_SGBRG10_def
  V4L2_PIX_FMT_IPU3_SGRBG10_def V4L2_PIX_FMT_IPU3_SRGGB10_def

lemma sint_ipu3_fourccs:
  "sint V4L2_PIX_FMT_IPU3_SBGGR10 = 0x62337069"
  "sint V4L2_PIX_FMT_IPU3_SGBRG10 = 0x67337069"
  "sint V4L2_PIX_FMT_IPU3_SGRBG10 = 0x47337069"
  "sint V4L2_PIX_FMT_IPU3_SRGGB10 = 0x72337069"
  by (simp_all add: fourcc_defs)

lemma mbus_codes_distinct:
  "MEDIA_BUS_FMT_SBGGR10_1X10 \<noteq> MEDIA_BUS_FMT_SGBRG10_1X10"
  "MEDIA_BUS_FMT_SBGGR10_1X10 \<noteq> MEDIA_BUS_FMT_SGRBG10_1X10"
  "MEDIA_BUS_FMT_SBGGR10_1X10 \<noteq> MEDIA_BUS_FMT_SRGGB10_1X10"
  "MEDIA_BUS_FMT_SGBRG10_1X10 \<noteq> MEDIA_BUS_FMT_SGRBG10_1X10"
  "MEDIA_BUS_FMT_SGBRG10_1X10 \<noteq> MEDIA_BUS_FMT_SRGGB10_1X10"
  "MEDIA_BUS_FMT_SGRBG10_1X10 \<noteq> MEDIA_BUS_FMT_SRGGB10_1X10"
  by (simp_all add: mbus_defs)

text \<open>
  Claim C7. \<^verbatim>\<open>mediaBusToFormat\<close> sends SBGGR10_1X10, SGBRG10_1X10, SGRBG10_1X10 and
  SRGGB10_1X10 to IPU3_SBGGR10, IPU3_SGBRG10, IPU3_SGRBG10 and IPU3_SRGGB10 in this order,
  each a non-negative \<^verbatim>\<open>int\<close> whose 32 bits are the fourcc; every other code gets
  \<^verbatim>\<open>-EINVAL\<close>, and the result is negative exactly for the codes outside the four.
\<close>

theorem mediaBusToFormat_table:
  "mediaBusToFormat MEDIA_BUS_FMT_SBGGR10_1X10 = uint V4L2_PIX_FMT_IPU3_SBGGR10
   \<and> mediaBusToFormat MEDIA_BUS_FMT_SGBRG10_1X10 = uint V4L2_PIX_FMT_IPU3_SGBRG10
   \<and> mediaBusToFormat MEDIA_BUS_FMT_SGRBG10_1X10 = uint V4L2_PIX_FMT_IPU3_SGRBG10
   \<and> mediaBusToFormat MEDIA_BUS_FMT_SRGGB10_1X10 = uint V4L2_PIX_FMT_IPU3_SRGGB10
   \<and> (\<forall>code. code \<notin> {MEDIA_BUS_FMT_SBGGR10_1X10, MEDIA_BUS_FMT_SGBRG10_1X10,
                      MEDIA_BUS_FMT_SGRBG10_1X10, MEDIA_BUS_FMT_SRGGB10_1X10}
        \<longrightarrow> mediaBusToFormat code = - EINVAL)
   \<and> (\<forall>code. mediaBusToFormat code < 0 \<longleftrightarrow>
          code \<notin> {MEDIA_BUS_FMT_SBGGR10_1X10, MEDIA_BUS_FMT_SGBRG10_1X10,
                   MEDIA_BUS_FMT_SGRBG10_1X10, MEDIA_BUS_FMT_SRGGB10_1X10})"
  by (simp add: mediaBusToFormat_def mbus_defs fourcc_defs EINVAL_def)

theorem mediaBusToFormat_table_witness:
  "mediaBusToFormat 0x3007 = 0x62337069 \<and> mediaBusToFormat MEDIA_BUS_FMT_FIXED = - 22
   \<and> mediaBusToFormat 0x2008 < 0"
proof -
  have a: "MEDIA_BUS_FMT_FIXED \<notin> {MEDIA_BUS_FMT_SBGGR10_1X10, MEDIA_BUS_FMT_SGBRG10_1X10,
                      MEDIA_BUS_FMT_SGRBG10_1X10, MEDIA_BUS_FMT_SRGGB10_1X10}"
    by (simp add: mbus_defs)
  have b: "(0x2008 :: u32) \<notin> {MEDIA_BUS_FMT_SBGGR10_1X10, MEDIA_BUS_FMT_SGBRG10_1X10,
                      MEDIA_BUS_FMT_SGRBG10_1X10, MEDIA_BUS_FMT_SRGGB10_1X10}"
    by (simp add: mbus_defs)
  from mediaBusToFormat_table a b
  have "mediaBusToFormat MEDIA_BUS_FMT_SBGGR10_1X10 = uint V4L2_PIX_FMT_IPU3_SBGGR10"
    and "mediaBusToFormat MEDIA_BUS_FMT_FIXED = - EINVAL"
    and "mediaBusToFormat 0x2008 < 0"
    by blast+
  then show ?thesis
    by (simp add: mbus_defs fourcc_defs EINVAL_def)
qed

subsection \<open>Timer\<close>

lemma start_deadline_nat:
  assumes "unat (tv_sec tp) * 1000000000 + unat (tv_nsec tp) + unat msec * 1000000 < 2 ^ 64"
  shows "unat (deadline (start tp msec t)) =
           unat (tv_sec tp) * 1000000000 + unat (tv_nsec tp) + unat msec * 1000000"
proof -
  have m: "unat (ucast msec :: u64) = unat msec"
  proof -
    have "unat msec < 2 ^ 32" using unsigned_less [of msec] by simp
    then have "unat msec < 2 ^ 64" by simp
    then show ?thesis by (simp add: unsigned_ucast_eq take_bit_nat_eq_self)
  qed
  have "unat (tv_sec tp * 1000000000 + tv_nsec tp + ucast msec * 1000000)
        = (unat (tv_sec tp) * 1000000000 + unat (tv_nsec tp) + unat msec * 1000000) mod 2 ^ 64"
    by (simp add: unat_word_ariths m mod_simps)
  with assms show ?thesis
    by (simp add: start_def registerTimer_def)
qed

text \<open>
  What \<^verbatim>\<open>start\<close> and \<^verbatim>\<open>stop\<close> leave. After \<^verbatim>\<open>start(msec)\<close> the deadline is the sampled time in
  nanoseconds plus \<open>msec\<close> times 1000000, computed in unsigned 64-bit arithmetic, the
  interval is \<open>msec\<close> and the timer is registered with its thread's dispatcher.
  \<^verbatim>\<open>isRunning()\<close> is true exactly when that deadline is not zero: it is true, and the
  deadline is the exact sum (so at least now plus \<open>msec\<close> milliseconds), whenever the sampled
  time is positive and the sum fits in 64 bits. After \<^verbatim>\<open>stop()\<close> the deadline is zero,
  \<^verbatim>\<open>isRunning()\<close> is false and the timer is no longer in the set of its thread's
  dispatcher; when it was registered nowhere else, a step of any dispatcher, at any time,
  on the state \<^verbatim>\<open>stop()\<close> leaves fires nothing. Starting a started timer again leaves it with
  the deadline and interval of the second start, registered as one start would leave it.
\<close>

theorem timer_start_stop:
  "deadline (start tp msec t) = tv_sec tp * 1000000000 + tv_nsec tp + ucast msec * 1000000
   \<and> interval (start tp msec t) = msec
   \<and> thread t \<in> registered (start tp msec t)
   \<and> (isRunning (start tp msec t) \<longleftrightarrow>
        tv_sec tp * 1000000000 + tv_nsec tp + ucast msec * 1000000 \<noteq> 0)
   \<and> (0 < unat (tv_sec tp) * 1000000000 + unat (tv_nsec tp) \<and>
       unat (tv_sec tp) * 1000000000 + unat (tv_nsec tp) + unat msec * 1000000 < 2 ^ 64 \<longrightarrow>
         unat (deadline (start tp msec t)) =
           unat (tv_sec tp) * 1000000000 + unat (tv_nsec tp) + unat msec * 1000000
         \<and> isRunning (start tp msec t))
   \<and> deadline (stop t) = 0 \<and> \<not> isRunning (stop t) \<and> thread t \<notin> registered (stop t)
   \<and> (registered t \<subseteq> {thread t} \<longrightarrow>
         (\<forall>d now. processTimers d now (stop t) = stop t))
   \<and> deadline (start tp' msec' (start tp msec t)) =
        tv_sec tp' * 1000000000 + tv_nsec tp' + ucast msec' * 1000000
   \<and> interval (start tp' msec' (start tp msec t)) = msec'
   \<and> registered (start tp' msec' (start tp msec t)) = registered (start tp' msec' t)"
proof -
  have nat: "unat (deadline (start tp msec t)) =
           unat (tv_sec tp) * 1000000000 + unat (tv_nsec tp) + unat msec * 1000000
         \<and> isRunning (start tp msec t)"
    if pos: "0 < unat (tv_sec tp) * 1000000000 + unat (tv_nsec tp)"
    and fit: "unat (tv_sec tp) * 1000000000 + unat (tv_nsec tp) + unat msec * 1000000 < 2 ^ 64"
  proof -
    from start_deadline_nat [OF fit]
    have d: "unat (deadline (start tp msec t)) =
           unat (tv_sec tp) * 1000000000 + unat (tv_nsec tp) + unat msec * 1000000" .
    with pos have "unat (deadline (start tp msec t)) \<noteq> 0" by linarith
    then have "deadline (start tp msec t) \<noteq> 0" by (metis unat_0)
    with d show ?thesis by (simp add: isRunning_def)
  qed
  have quiet: "processTimers d now (stop t) = stop t" if "registered t \<subseteq> {thread t}" for d now
    using that by (auto simp: processTimers_def stop_def unregisterTimer_def)
  show ?thesis
    using nat quiet
    by (simp add: start_def stop_def isRunning_def registerTimer_def unregisterTimer_def)
qed

theorem timer_start_stop_witness:
  "unat (deadline (start \<lparr>tv_sec = 100, tv_nsec = 5\<rparr> 1000 (Timer 0))) = 101000000005
   \<and> isRunning (start \<lparr>tv_sec = 100, tv_nsec = 5\<rparr> 1000 (Timer 0))
   \<and> processTimers 0 200000000000 (stop (start \<lparr>tv_sec = 100, tv_nsec = 5\<rparr> 1000 (Timer 0)))
       = stop (start \<lparr>tv_sec = 100, tv_nsec = 5\<rparr> 1000 (Timer 0))"
proof -
  let ?tp = "\<lparr>tv_sec = 100, tv_nsec = 5\<rparr>"
  have pos: "0 < unat (tv_sec ?tp) * 1000000000 + unat (tv_nsec ?tp)"
    by simp
  have fit: "unat (tv_sec ?tp) * 1000000000 + unat (tv_nsec ?tp) + unat (1000 :: u32) * 1000000
               < 2 ^ 64"
    by simp
  have reg: "registered (start ?tp 1000 (Timer 0)) \<subseteq> {thread (start ?tp 1000 (Timer 0))}"
    by (simp add: start_def registerTimer_def Timer_def)
  from timer_start_stop [of ?tp 1000 "Timer 0"] pos fit
  have a: "unat (deadline (start ?tp 1000 (Timer 0))) =
             unat (tv_sec ?tp) * 1000000000 + unat (tv_nsec ?tp) + unat (1000 :: u32) * 1000000"
    and b: "isRunning (start ?tp 1000 (Timer 0))"
    by blast+
  from timer_start_stop [of _ _ "start ?tp 1000 (Timer 0)"] reg
  have c: "processTimers 0 200000000000 (stop (start ?tp 1000 (Timer 0)))
             = stop (start ?tp 1000 (Timer 0))"
    by blast
  from a have "unat (deadline (start ?tp 1000 (Timer 0))) = 101000000005"
    by simp
  with b c show ?thesis by simp
qed

text \<open>
  Claim C8 does not hold of the code. The claim, and the documentation of \<^verbatim>\<open>Timer::stop\<close>
  (\<^verbatim>\<open>After this function returns the timer is guaranteed not to emit the timeout signal\<close>),
  have no \<^verbatim>\<open>timeout\<close> emitted after \<^verbatim>\<open>stop()\<close> returns. A timer is started on thread 1 at the
  monotonic time 7 s with 10 ms and moved to thread 2 while armed: \<^verbatim>\<open>Timer::message\<close>
  unregisters it and posts \<^verbatim>\<open>registerTimer\<close> as a queued invocation. It is stopped before
  thread 2 has run that invocation: \<^verbatim>\<open>stop()\<close> zeroes the deadline, \<^verbatim>\<open>isRunning()\<close> is false and no
  \<^verbatim>\<open>timeout\<close> was emitted so far, but the queued invocation stays. The next dispatch round of
  thread 2 runs it, which registers the stopped timer with the deadline 0, and the
  dispatcher of thread 2 emits \<^verbatim>\<open>timeout\<close>.
\<close>

theorem timeout_after_stop:
  "deadline (stop (moveToThread 2 (start \<lparr>tv_sec = 7, tv_nsec = 0\<rparr> 10 (Timer 1)))) = 0
   \<and> \<not> isRunning (stop (moveToThread 2 (start \<lparr>tv_sec = 7, tv_nsec = 0\<rparr> 10 (Timer 1))))
   \<and> timeouts (stop (moveToThread 2 (start \<lparr>tv_sec = 7, tv_nsec = 0\<rparr> 10 (Timer 1)))) = []
   \<and> invoked (stop (moveToThread 2 (start \<lparr>tv_sec = 7, tv_nsec = 0\<rparr> 10 (Timer 1))))
       = [Invoke_registerTimer]
   \<and> timeouts (processTimers 2 7005000000
         (deliverMessages
           (stop (moveToThread 2 (start \<lparr>tv_sec = 7, tv_nsec = 0\<rparr> 10 (Timer 1))))))
       = [2]"
  by (simp add: processTimers_def deliverMessages_def stop_def moveToThread_def message_def
      Object_message_def invokeMethod_def unregisterTimer_def registerTimer_def start_def
      Timer_def isRunning_def)

text \<open>
  Claim C9. On a \<^verbatim>\<open>ThreadMoveMessage\<close> an armed timer (deadline not zero) unregisters from
  the dispatcher of the thread it is on, then posts \<^verbatim>\<open>registerTimer\<close> as a queued
  invocation, then hands the message to \<^verbatim>\<open>Object::message\<close>; a timer that is not armed only
  hands the message on. No message changes the deadline, so \<^verbatim>\<open>isRunning()\<close> is preserved.
  When the armed timer is then moved to the target thread and that thread runs the queued
  invocation, the timer is registered with the target thread's dispatcher and no longer
  with the old one.
\<close>

theorem timer_thread_move:
  "(deadline t \<noteq> 0 \<longrightarrow>
      message ThreadMoveMessage t =
        t\<lparr>registered := registered t - {thread t},
          invoked := invoked t @ [Invoke_registerTimer],
          calls := calls t @ [Call_unregisterTimer (thread t),
                              Call_invokeMethod Invoke_registerTimer,
                              Call_Object_message ThreadMoveMessage]\<rparr>)
   \<and> (deadline t = 0 \<longrightarrow>
      message ThreadMoveMessage t =
        t\<lparr>calls := calls t @ [Call_Object_message ThreadMoveMessage]\<rparr>)
   \<and> deadline (message msg t) = deadline t
   \<and> isRunning (message msg t) = isRunning t
   \<and> (deadline t \<noteq> 0 \<and> invoked t = [] \<longrightarrow>
        registered (deliverMessages (moveToThread target t)) =
          insert target (registered t - {thread t})
        \<and> calls (deliverMessages (moveToThread target t)) =
            calls t @ [Call_unregisterTimer (thread t),
                       Call_invokeMethod Invoke_registerTimer,
                       Call_Object_message ThreadMoveMessage,
                       Call_registerTimer target]
        \<and> isRunning (deliverMessages (moveToThread target t)))"
  by (simp add: message_def Object_message_def invokeMethod_def unregisterTimer_def
      registerTimer_def isRunning_def moveToThread_def deliverMessages_def)

theorem timer_thread_move_witness:
  "message ThreadMoveMessage (start \<lparr>tv_sec = 7, tv_nsec = 0\<rparr> 10 (Timer 1)) =
     \<lparr>interval = 10, deadline = 7010000000, thread = 1, registered = {},
      invoked = [Invoke_registerTimer], timeouts = [],
      calls = [Call_registerTimer 1, Call_unregisterTimer 1,
               Call_invokeMethod Invoke_registerTimer,
               Call_Object_message ThreadMoveMessage]\<rparr>
   \<and> message ThreadMoveMessage (Timer 1) =
       (Timer 1)\<lparr>calls := [Call_Object_message ThreadMoveMessage]\<rparr>
   \<and> registered (deliverMessages (moveToThread 2
        (start \<lparr>tv_sec = 7, tv_nsec = 0\<rparr> 10 (Timer 1)))) = {2}
   \<and> isRunning (deliverMessages (moveToThread 2
        (start \<lparr>tv_sec = 7, tv_nsec = 0\<rparr> 10 (Timer 1))))"
proof -
  let ?t = "start \<lparr>tv_sec = 7, tv_nsec = 0\<rparr> 10 (Timer 1)"
  have armed: "deadline ?t \<noteq> 0" and q: "invoked ?t = []"
    by (simp_all add: start_def registerTimer_def Timer_def)
  have idle: "deadline (Timer 1) = 0"
    by (simp add: Timer_def)
  from timer_thread_move [of ?t ThreadMoveMessage 2] armed q
  have a: "message ThreadMoveMessage ?t =
        ?t\<lparr>registered := registered ?t - {thread ?t},
          invoked := invoked ?t @ [Invoke_registerTimer],
          calls := calls ?t @ [Call_unregisterTimer (thread ?t),
                              Call_invokeMethod Invoke_registerTimer,
                              Call_Object_message ThreadMoveMessage]\<rparr>"
    and b: "registered (deliverMessages (moveToThread 2 ?t)) =
          insert 2 (registered ?t - {thread ?t})"
    and c: "isRunning (deliverMessages (moveToThread 2 ?t))"
    by blast+
  from timer_thread_move [of "Timer 1" ThreadMoveMessage 2] idle
  have d: "message ThreadMoveMessage (Timer 1) =
        (Timer 1)\<lparr>calls := calls (Timer 1) @ [Call_Object_message ThreadMoveMessage]\<rparr>"
    by blast
  have e: "?t = \<lparr>interval = 10, deadline = 7010000000, thread = 1, registered = {1},
      invoked = [], timeouts = [], calls = [Call_registerTimer 1]\<rparr>"
    by (simp add: start_def registerTimer_def Timer_def)
  show ?thesis
    unfolding a b d using c unfolding e by (simp add: Timer_def)
qed

subsection \<open>configureStreams: rejected sizes\<close>

lemma map_subscript_present:
  assumes "fst (map_subscript m k) \<noteq> StreamConfiguration_zero"
  shows "map_subscript m k = (fst (map_subscript m k), m)"
  using assms by (auto simp: map_subscript_def split: option.splits)

text \<open>
  Claim C2. When the configuration requested for the camera's stream has a width that is
  not a multiple of 8, a height that is not a multiple of 4, or a width or height above the
  cached maximum size of the sensor, \<^verbatim>\<open>configureStreams\<close> returns \<^verbatim>\<open>-EINVAL\<close> and changes
  nothing: no call is made on any device, the caller's map and the camera data are as
  before.
\<close>

theorem configureStreams_rejects:
  assumes "cfg = fst (map_subscript (config_map s) (stream (camera_data s)))"
    and "width cfg mod 8 \<noteq> 0 \<or> height cfg mod 4 \<noteq> 0
         \<or> width cfg > Size.width (maxSize (cio2 (camera_data s)))
         \<or> height cfg > Size.height (maxSize (cio2 (camera_data s)))"
  shows "configureStreams env s = (- EINVAL, s)"
proof -
  from assms(2) have "cfg \<noteq> StreamConfiguration_zero"
    by (auto simp: StreamConfiguration_zero_def)
  with assms(1) have m: "map_subscript (config_map s) (stream (camera_data s)) = (cfg, config_map s)"
    using map_subscript_present by metis
  show ?thesis
    using assms(2) by (auto simp: configureStreams_def m Let_def)
qed

theorem configureStreams_rejects_witness:
  "configureStreams example_hw
     (example_pipeline \<lparr>width = 641, height = 480, pixelFormat = 0, bufferCount = 4\<rparr>)
   = (- 22, example_pipeline \<lparr>width = 641, height = 480, pixelFormat = 0, bufferCount = 4\<rparr>)
   \<and> configureStreams example_hw
     (example_pipeline \<lparr>width = 640, height = 481, pixelFormat = 0, bufferCount = 4\<rparr>)
   = (- 22, example_pipeline \<lparr>width = 640, height = 481, pixelFormat = 0, bufferCount = 4\<rparr>)
   \<and> configureStreams example_hw
     (example_pipeline \<lparr>width = 4096, height = 480, pixelFormat = 0, bufferCount = 4\<rparr>)
   = (- 22, example_pipeline \<lparr>width = 4096, height = 480, pixelFormat = 0, bufferCount = 4\<rparr>)"
proof -
  have a: "configureStreams example_hw (example_pipeline c) = (- EINVAL, example_pipeline c)"
    if "width c mod 8 \<noteq> 0 \<or> height c mod 4 \<noteq> 0 \<or> width c > 2592 \<or> height c > 1944" for c
    using that configureStreams_rejects [of c "example_pipeline c" example_hw]
    by (simp add: example_pipeline_def example_data_def map_subscript_def)
  show ?thesis
    by (simp add: a EINVAL_def)
qed

subsection \<open>configureStreams: the selected sensor format\<close>

lemma configure_sizes_step:
  "configure_sizes config (width config * height config) code (sz # sizes) acc =
     configure_sizes config (width config * height config) code sizes
       (if maxWidth sz \<ge> width config \<and> maxHeight sz \<ge> height config
        then try_candidate config (code, sz) acc else acc)"
proof -
  obtain best sf where acc: "acc = (best, sf)" by (cases acc)
  have f: "sf\<lparr>V4L2SubdeviceFormat.width := maxWidth sz,
              V4L2SubdeviceFormat.height := maxHeight sz, mbus_code := code\<rparr>
           = format_of (code, sz)"
    by (cases sf) (simp add: format_of_def)
  show ?thesis
    unfolding acc
    by (auto simp: try_candidate_def excess_def Let_def f)
qed

lemma configure_sizes_fold:
  "configure_sizes config (width config * height config) code sizes acc =
     fold (try_candidate config)
       (map (Pair code) (filter (\<lambda>sz. maxWidth sz \<ge> width config \<and>
                                        maxHeight sz \<ge> height config) sizes)) acc"
proof (induction sizes arbitrary: acc)
  case Nil
  then show ?case by (cases acc) simp
next
  case (Cons sz sizes)
  show ?case
    unfolding configure_sizes_step by (simp add: Cons.IH)
qed

lemma configure_formats_fold:
  "configure_formats config (width config * height config) formats acc =
     fold (try_candidate config) (candidates config formats) acc"
proof (induction formats arbitrary: acc)
  case Nil
  then show ?case by (simp add: candidates_def)
next
  case (Cons it formats)
  have c: "candidates config (it # formats) =
            (if mediaBusToFormat (fst it) < 0 then []
             else map (Pair (fst it))
                    (filter (\<lambda>sz. maxWidth sz \<ge> width config \<and>
                                   maxHeight sz \<ge> height config) (snd it)))
            @ candidates config formats"
    by (simp add: candidates_def)
  show ?case
    by (simp add: c Cons.IH configure_sizes_fold)
qed

lemma fold_try_candidate:
  "fold (try_candidate config) cands (best0, sf0) = (best, sf) \<Longrightarrow>
     (if \<forall>c \<in> set cands. excess config c \<ge> best0 then best = best0 \<and> sf = sf0
      else best < best0 \<and>
           (\<exists>i. first_minimal config cands i \<and> best = excess config (cands ! i)
                \<and> sf = format_of (cands ! i)))"
proof (induction cands arbitrary: best sf rule: rev_induct)
  case Nil
  then show ?case by simp
next
  case (snoc c cands)
  obtain b1 f1 where mid: "fold (try_candidate config) cands (best0, sf0) = (b1, f1)"
    by (cases "fold (try_candidate config) cands (best0, sf0)")
  note IH = snoc.IH [OF mid]
  from snoc.prems mid have res: "(best, sf) = try_candidate config c (b1, f1)"
    by simp
  show ?case
  proof (cases "excess config c \<ge> b1")
    case True
    with res have eq: "best = b1" "sf = f1" by (simp_all add: try_candidate_def)
    show ?thesis
    proof (cases "\<forall>c \<in> set cands. excess config c \<ge> best0")
      case all: True
      with IH have "b1 = best0" "f1 = sf0" by simp_all
      with True all eq show ?thesis by simp
    next
      case some: False
      with IH obtain i where lt: "b1 < best0" and fm: "first_minimal config cands i"
        and b: "b1 = excess config (cands ! i)" and f: "f1 = format_of (cands ! i)"
        by auto
      from fm have i: "i < length cands" by (simp add: first_minimal_def)
      have "first_minimal config (cands @ [c]) i"
        using fm True b
        by (auto simp: first_minimal_def nth_append less_Suc_eq)
      with some lt b f eq i show ?thesis
        by (auto simp: nth_append)
    qed
  next
    case False
    then have new: "excess config c < b1" by simp
    from False have "try_candidate config c (b1, f1) = (excess config c, format_of c)"
      by (simp add: try_candidate_def)
    with res have eq: "best = excess config c" "sf = format_of c"
      by simp_all
    have b1: "b1 \<le> best0" using IH by (auto split: if_splits)
    have below: "\<forall>j < length cands. excess config c < excess config (cands ! j)"
    proof (cases "\<forall>c \<in> set cands. excess config c \<ge> best0")
      case True
      with IH have "b1 = best0" by simp
      with True new show ?thesis by (metis nth_mem order_less_le_trans)
    next
      case False
      with IH obtain i where fm: "first_minimal config cands i" and b: "b1 = excess config (cands ! i)"
        by auto
      with new show ?thesis
        by (metis first_minimal_def order_less_le_trans)
    qed
    then have "first_minimal config (cands @ [c]) (length cands)"
      by (auto simp: first_minimal_def nth_append less_Suc_eq order_less_imp_le)
    moreover have "\<not> (\<forall>c' \<in> set (cands @ [c]). excess config c' \<ge> best0)"
      using new b1 by auto
    ultimately show ?thesis
      using eq new b1 by (auto simp: nth_append intro!: exI [of _ "length cands"])
  qed
qed

lemma candidates_fit:
  "c \<in> set (candidates config formats) \<Longrightarrow>
     mediaBusToFormat (fst c) \<ge> 0 \<and> width config \<le> maxWidth (snd c)
     \<and> height config \<le> maxHeight (snd c)
     \<and> (\<exists>sizes. (fst c, sizes) \<in> set formats \<and> snd c \<in> set sizes)"
  by (auto simp: candidates_def split: if_splits)

lemma excess_exact:
  assumes "width config \<le> maxWidth (snd c)" "height config \<le> maxHeight (snd c)"
    and "unat (maxWidth (snd c)) * unat (maxHeight (snd c)) < 2 ^ 32"
  shows "unat (excess config c) =
           unat (maxWidth (snd c)) * unat (maxHeight (snd c))
           - unat (width config) * unat (height config)"
proof -
  have w: "unat (width config) \<le> unat (maxWidth (snd c))"
    and h: "unat (height config) \<le> unat (maxHeight (snd c))"
    using assms(1,2) by (simp_all add: word_le_nat_alt)
  then have le: "unat (width config) * unat (height config)
                \<le> unat (maxWidth (snd c)) * unat (maxHeight (snd c))"
    by (rule mult_le_mono)
  with assms(3) have small: "unat (width config) * unat (height config) < 2 ^ 32"
    by simp
  have a: "unat (maxWidth (snd c) * maxHeight (snd c))
           = unat (maxWidth (snd c)) * unat (maxHeight (snd c))"
    using assms(3) by (simp add: unat_mult_lem [THEN iffD1])
  have b: "unat (width config * height config) = unat (width config) * unat (height config)"
    using small by (simp add: unat_mult_lem [THEN iffD1])
  from le a b have "width config * height config \<le> maxWidth (snd c) * maxHeight (snd c)"
    by (simp add: word_le_nat_alt)
  then show ?thesis
    by (simp add: excess_def unat_sub a b)
qed

lemma CIO2Device_configure_accepting:
  assumes "accepting env"
    and "configure_formats config (width config * height config) (sensor_formats env)
           (- 1, V4L2SubdeviceFormat_zero) = (best, sf)"
  shows "CIO2Device_configure env config outputFormat cs =
           (0,
            outputFormat
              \<lparr>V4L2DeviceFormat.width := V4L2SubdeviceFormat.width sf,
               V4L2DeviceFormat.height := V4L2SubdeviceFormat.height sf,
               fourcc := word_of_int (mediaBusToFormat (mbus_code sf)),
               planesCount := 1\<rparr>,
            cs @ [Subdev_setFormat Sensor 0 sf, Subdev_setFormat Csi2 0 sf,
                  Dev_setFormat Cio2Output
                    (outputFormat
                      \<lparr>V4L2DeviceFormat.width := V4L2SubdeviceFormat.width sf,
                       V4L2DeviceFormat.height := V4L2SubdeviceFormat.height sf,
                       fourcc := word_of_int (mediaBusToFormat (mbus_code sf)),
                       planesCount := 1\<rparr>)])"
  using assms
  by (simp add: CIO2Device_configure_def accepting_def V4L2Subdevice_setFormat_def
      V4L2Device_setFormat_def Let_def)

lemma ImgUDevice_configureInput_accepting:
  assumes "accepting env"
  shows "ImgUDevice_configureInput env im config inputFormat cs =
           (0, inputFormat,
            cs @ [Dev_setFormat ImguInput inputFormat,
                  Subdev_setCrop Imgu PAD_INPUT
                    \<lparr>rect_x = 0, rect_y = 0, rect_w = V4L2DeviceFormat.width inputFormat,
                     rect_h = V4L2DeviceFormat.height inputFormat\<rparr>,
                  Subdev_setCompose Imgu PAD_INPUT
                    \<lparr>rect_x = 0, rect_y = 0, rect_w = V4L2DeviceFormat.width inputFormat,
                     rect_h = V4L2DeviceFormat.height inputFormat\<rparr>,
                  Subdev_setFormat Imgu PAD_INPUT
                    \<lparr>mbus_code = MEDIA_BUS_FMT_FIXED,
                     V4L2SubdeviceFormat.width = width config,
                     V4L2SubdeviceFormat.height = height config\<rparr>])"
  using assms
  by (simp add: ImgUDevice_configureInput_def accepting_def V4L2Subdevice_setFormat_def
      V4L2Device_setFormat_def V4L2Subdevice_setCrop_def V4L2Subdevice_setCompose_def
      V4L2SubdeviceFormat_zero_def Let_def)

lemma ImgUDevice_configureOutput_accepting:
  assumes "accepting env"
  shows "ImgUDevice_configureOutput env im out config cs =
           (0,
            cs @ Subdev_setFormat Imgu (pad (deref im out))
                    \<lparr>mbus_code = MEDIA_BUS_FMT_FIXED,
                     V4L2SubdeviceFormat.width = width config,
                     V4L2SubdeviceFormat.height = height config\<rparr>
               # (if out = Ptr_stat then []
                  else [Dev_setFormat (dev (deref im out))
                          \<lparr>V4L2DeviceFormat.width = width config,
                           V4L2DeviceFormat.height = height config,
                           fourcc = V4L2_PIX_FMT_NV12, planesCount = 2\<rparr>]))"
  using assms
  by (simp add: ImgUDevice_configureOutput_def accepting_def V4L2Subdevice_setFormat_def
      V4L2Device_setFormat_def V4L2SubdeviceFormat_zero_def V4L2DeviceFormat_zero_def Let_def)


lemma example_hw_accepting: "accepting example_hw"
  by (simp add: accepting_def example_hw_def)

text \<open>
  The path of \<^verbatim>\<open>configureStreams\<close> past both checks. Let the requested configuration of the
  camera's stream pass the alignment and oversize checks, and let every device accept what
  it is passed.
  \<^verbatim>\<open>CIO2Device::configure\<close> looks at the candidates: the sensor formats whose code the CIO2
  consumes and whose maximum size is at least the requested size in both dimensions. It
  computes the excess pixel area of each in unsigned 32-bit arithmetic. Unless every
  candidate has the excess \<open>2^32 - 1\<close> (the start value of \<^verbatim>\<open>best\<close>), it selects the candidate
  of least excess, the first found among equals; otherwise (also when there is no candidate)
  the format stays all zero. \<^verbatim>\<open>configureStreams\<close> returns 0 after applying the selected
  format to the sensor, to the CSI-2 receiver and, with the IPU3 fourcc and one plane, to
  the CIO2 output and the ImgU input, setting the crop and compose rectangles and the
  requested size on the ImgU input pad, and then propagating the requested size to the
  ImgU output, viewfinder and statistics pads (NV12 on the two video nodes). For a
  candidate whose area fits in 32 bits the computed excess is the exact difference of the
  areas.
\<close>

theorem configureStreams_selects_and_applies:
  assumes present: "config_map s (stream (camera_data s)) = Some cfg"
    and aligned: "width cfg mod 8 = 0" "height cfg mod 4 = 0"
    and fits: "width cfg \<le> Size.width (maxSize (cio2 (camera_data s)))"
              "height cfg \<le> Size.height (maxSize (cio2 (camera_data s)))"
    and acc: "accepting env"
  shows "(\<forall>c \<in> set (candidates cfg (sensor_formats env)).
            unat (maxWidth (snd c)) * unat (maxHeight (snd c)) < 2 ^ 32 \<longrightarrow>
            unat (excess cfg c) =
              unat (maxWidth (snd c)) * unat (maxHeight (snd c))
              - unat (width cfg) * unat (height cfg))
   \<and> (\<exists>sf.
     (if \<forall>c \<in> set (candidates cfg (sensor_formats env)). excess cfg c = - 1
      then sf = V4L2SubdeviceFormat_zero
      else \<exists>i. first_minimal cfg (candidates cfg (sensor_formats env)) i
               \<and> sf = format_of (candidates cfg (sensor_formats env) ! i))
     \<and> configureStreams env s =
         (0, s\<lparr>v4l2_calls := v4l2_calls s @
              [Subdev_setFormat Sensor 0 sf,
               Subdev_setFormat Csi2 0 sf,
               Dev_setFormat Cio2Output
                 \<lparr>V4L2DeviceFormat.width = V4L2SubdeviceFormat.width sf,
                  V4L2DeviceFormat.height = V4L2SubdeviceFormat.height sf,
                  fourcc = word_of_int (mediaBusToFormat (mbus_code sf)), planesCount = 1\<rparr>,
               Dev_setFormat ImguInput
                 \<lparr>V4L2DeviceFormat.width = V4L2SubdeviceFormat.width sf,
                  V4L2DeviceFormat.height = V4L2SubdeviceFormat.height sf,
                  fourcc = word_of_int (mediaBusToFormat (mbus_code sf)), planesCount = 1\<rparr>,
               Subdev_setCrop Imgu PAD_INPUT
                 \<lparr>rect_x = 0, rect_y = 0, rect_w = V4L2SubdeviceFormat.width sf,
                  rect_h = V4L2SubdeviceFormat.height sf\<rparr>,
               Subdev_setCompose Imgu PAD_INPUT
                 \<lparr>rect_x = 0, rect_y = 0, rect_w = V4L2SubdeviceFormat.width sf,
                  rect_h = V4L2SubdeviceFormat.height sf\<rparr>,
               Subdev_setFormat Imgu PAD_INPUT
                 \<lparr>mbus_code = MEDIA_BUS_FMT_FIXED, V4L2SubdeviceFormat.width = width cfg,
                  V4L2SubdeviceFormat.height = height cfg\<rparr>,
               Subdev_setFormat Imgu (pad (imgu_output (imgu (camera_data s))))
                 \<lparr>mbus_code = MEDIA_BUS_FMT_FIXED, V4L2SubdeviceFormat.width = width cfg,
                  V4L2SubdeviceFormat.height = height cfg\<rparr>,
               Dev_setFormat (dev (imgu_output (imgu (camera_data s))))
                 \<lparr>V4L2DeviceFormat.width = width cfg, V4L2DeviceFormat.height = height cfg,
                  fourcc = V4L2_PIX_FMT_NV12, planesCount = 2\<rparr>,
               Subdev_setFormat Imgu (pad (imgu_viewfinder (imgu (camera_data s))))
                 \<lparr>mbus_code = MEDIA_BUS_FMT_FIXED, V4L2SubdeviceFormat.width = width cfg,
                  V4L2SubdeviceFormat.height = height cfg\<rparr>,
               Dev_setFormat (dev (imgu_viewfinder (imgu (camera_data s))))
                 \<lparr>V4L2DeviceFormat.width = width cfg, V4L2DeviceFormat.height = height cfg,
                  fourcc = V4L2_PIX_FMT_NV12, planesCount = 2\<rparr>,
               Subdev_setFormat Imgu (pad (imgu_stat (imgu (camera_data s))))
                 \<lparr>mbus_code = MEDIA_BUS_FMT_FIXED, V4L2SubdeviceFormat.width = width cfg,
                  V4L2SubdeviceFormat.height = height cfg\<rparr>]\<rparr>))"
proof -
  obtain best sf where sel:
    "configure_formats cfg (width cfg * height cfg) (sensor_formats env)
       (- 1, V4L2SubdeviceFormat_zero) = (best, sf)"
    by (cases "configure_formats cfg (width cfg * height cfg) (sensor_formats env)
                 (- 1, V4L2SubdeviceFormat_zero)")
  let ?cands = "candidates cfg (sensor_formats env)"
  have all: "(\<forall>c \<in> set ?cands. excess cfg c \<ge> - 1) \<longleftrightarrow> (\<forall>c \<in> set ?cands. excess cfg c = - 1)"
    by (metis word_order.extremum_unique)
  from sel have "fold (try_candidate cfg) ?cands (- 1, V4L2SubdeviceFormat_zero) = (best, sf)"
    by (simp add: configure_formats_fold)
  from fold_try_candidate [OF this]
  have chosen: "if \<forall>c \<in> set ?cands. excess cfg c = - 1
      then sf = V4L2SubdeviceFormat_zero
      else \<exists>i. first_minimal cfg ?cands i \<and> sf = format_of (?cands ! i)"
    unfolding all by (auto split: if_splits)
  have m: "map_subscript (config_map s) (stream (camera_data s)) = (cfg, config_map s)"
    using present by (simp add: map_subscript_def)
  have checks: "\<not> (width cfg mod 8 \<noteq> 0 \<or> height cfg mod 4 \<noteq> 0)"
    "\<not> (width cfg > Size.width (maxSize (cio2 (camera_data s))) \<or>
        height cfg > Size.height (maxSize (cio2 (camera_data s))))"
    using aligned fits by (simp_all add: not_less)
  have run: "configureStreams env s =
         (0, s\<lparr>v4l2_calls := v4l2_calls s @
              [Subdev_setFormat Sensor 0 sf,
               Subdev_setFormat Csi2 0 sf,
               Dev_setFormat Cio2Output
                 \<lparr>V4L2DeviceFormat.width = V4L2SubdeviceFormat.width sf,
                  V4L2DeviceFormat.height = V4L2SubdeviceFormat.height sf,
                  fourcc = word_of_int (mediaBusToFormat (mbus_code sf)), planesCount = 1\<rparr>,
               Dev_setFormat ImguInput
                 \<lparr>V4L2DeviceFormat.width = V4L2SubdeviceFormat.width sf,
                  V4L2DeviceFormat.height = V4L2SubdeviceFormat.height sf,
                  fourcc = word_of_int (mediaBusToFormat (mbus_code sf)), planesCount = 1\<rparr>,
               Subdev_setCrop Imgu PAD_INPUT
                 \<lparr>rect_x = 0, rect_y = 0, rect_w = V4L2SubdeviceFormat.width sf,
                  rect_h = V4L2SubdeviceFormat.height sf\<rparr>,
               Subdev_setCompose Imgu PAD_INPUT
                 \<lparr>rect_x = 0, rect_y = 0, rect_w = V4L2SubdeviceFormat.width sf,
                  rect_h = V4L2SubdeviceFormat.height sf\<rparr>,
               Subdev_setFormat Imgu PAD_INPUT
                 \<lparr>mbus_code = MEDIA_BUS_FMT_FIXED, V4L2SubdeviceFormat.width = width cfg,
                  V4L2SubdeviceFormat.height = height cfg\<rparr>,
               Subdev_setFormat Imgu (pad (imgu_output (imgu (camera_data s))))
                 \<lparr>mbus_code = MEDIA_BUS_FMT_FIXED, V4L2SubdeviceFormat.width = width cfg,
                  V4L2SubdeviceFormat.height = height cfg\<rparr>,
               Dev_setFormat (dev (imgu_output (imgu (camera_data s))))
                 \<lparr>V4L2DeviceFormat.width = width cfg, V4L2DeviceFormat.height = height cfg,
                  fourcc = V4L2_PIX_FMT_NV12, planesCount = 2\<rparr>,
               Subdev_setFormat Imgu (pad (imgu_viewfinder (imgu (camera_data s))))
                 \<lparr>mbus_code = MEDIA_BUS_FMT_FIXED, V4L2SubdeviceFormat.width = width cfg,
                  V4L2SubdeviceFormat.height = height cfg\<rparr>,
               Dev_setFormat (dev (imgu_viewfinder (imgu (camera_data s))))
                 \<lparr>V4L2DeviceFormat.width = width cfg, V4L2DeviceFormat.height = height cfg,
                  fourcc = V4L2_PIX_FMT_NV12, planesCount = 2\<rparr>,
               Subdev_setFormat Imgu (pad (imgu_stat (imgu (camera_data s))))
                 \<lparr>mbus_code = MEDIA_BUS_FMT_FIXED, V4L2SubdeviceFormat.width = width cfg,
                  V4L2SubdeviceFormat.height = height cfg\<rparr>]\<rparr>)"
    using checks
    by (simp add: configureStreams_def m Let_def CIO2Device_configure_accepting [OF acc sel]
        ImgUDevice_configureInput_accepting [OF acc]
        ImgUDevice_configureOutput_accepting [OF acc] V4L2DeviceFormat_zero_def)
  have exact: "\<forall>c \<in> set ?cands.
            unat (maxWidth (snd c)) * unat (maxHeight (snd c)) < 2 ^ 32 \<longrightarrow>
            unat (excess cfg c) =
              unat (maxWidth (snd c)) * unat (maxHeight (snd c))
              - unat (width cfg) * unat (height cfg)"
    using candidates_fit excess_exact by blast
  from chosen run exact show ?thesis by blast
qed

theorem configureStreams_selects_and_applies_witness:
  "configureStreams example_hw
     (example_pipeline \<lparr>width = 1280, height = 720, pixelFormat = 0, bufferCount = 4\<rparr>)
   = (0, (example_pipeline \<lparr>width = 1280, height = 720, pixelFormat = 0, bufferCount = 4\<rparr>)
        \<lparr>v4l2_calls :=
           [Subdev_setFormat Sensor 0
              \<lparr>mbus_code = 0x300a, V4L2SubdeviceFormat.width = 1280,
               V4L2SubdeviceFormat.height = 720\<rparr>,
            Subdev_setFormat Csi2 0
              \<lparr>mbus_code = 0x300a, V4L2SubdeviceFormat.width = 1280,
               V4L2SubdeviceFormat.height = 720\<rparr>,
            Dev_setFormat Cio2Output
              \<lparr>V4L2DeviceFormat.width = 1280, V4L2DeviceFormat.height = 720,
               fourcc = 0x47337069, planesCount = 1\<rparr>,
            Dev_setFormat ImguInput
              \<lparr>V4L2DeviceFormat.width = 1280, V4L2DeviceFormat.height = 720,
               fourcc = 0x47337069, planesCount = 1\<rparr>,
            Subdev_setCrop Imgu 0 \<lparr>rect_x = 0, rect_y = 0, rect_w = 1280, rect_h = 720\<rparr>,
            Subdev_setCompose Imgu 0 \<lparr>rect_x = 0, rect_y = 0, rect_w = 1280, rect_h = 720\<rparr>,
            Subdev_setFormat Imgu 0
              \<lparr>mbus_code = 1, V4L2SubdeviceFormat.width = 1280,
               V4L2SubdeviceFormat.height = 720\<rparr>,
            Subdev_setFormat Imgu 2
              \<lparr>mbus_code = 1, V4L2SubdeviceFormat.width = 1280,
               V4L2SubdeviceFormat.height = 720\<rparr>,
            Dev_setFormat ImguOutput
              \<lparr>V4L2DeviceFormat.width = 1280, V4L2DeviceFormat.height = 720,
               fourcc = 0x3231564e, planesCount = 2\<rparr>,
            Subdev_setFormat Imgu 3
              \<lparr>mbus_code = 1, V4L2SubdeviceFormat.width = 1280,
               V4L2SubdeviceFormat.height = 720\<rparr>,
            Dev_setFormat ImguViewfinder
              \<lparr>V4L2DeviceFormat.width = 1280, V4L2DeviceFormat.height = 720,
               fourcc = 0x3231564e, planesCount = 2\<rparr>,
            Subdev_setFormat Imgu 4
              \<lparr>mbus_code = 1, V4L2SubdeviceFormat.width = 1280,
               V4L2SubdeviceFormat.height = 720\<rparr>]\<rparr>)"
proof -
  let ?cfg = "\<lparr>width = 1280, height = 720, pixelFormat = 0, bufferCount = 4\<rparr>"
  let ?s = "example_pipeline ?cfg"
  let ?c0 = "(MEDIA_BUS_FMT_SGRBG10_1X10,
              \<lparr>minWidth = 2592, minHeight = 1944, maxWidth = 2592, maxHeight = 1944\<rparr>)"
  let ?c1 = "(MEDIA_BUS_FMT_SGRBG10_1X10,
              \<lparr>minWidth = 1296, minHeight = 972, maxWidth = 1296, maxHeight = 972\<rparr>)"
  let ?c2 = "(MEDIA_BUS_FMT_SGRBG10_1X10,
              \<lparr>minWidth = 1280, minHeight = 720, maxWidth = 1280, maxHeight = 720\<rparr>)"
  have cands: "candidates ?cfg (sensor_formats example_hw) = [?c0, ?c1, ?c2]"
    by (simp add: candidates_def example_hw_def mediaBusToFormat_def mbus_defs fourcc_defs)
  have e0: "excess ?cfg ?c0 = 4117248" and e1: "excess ?cfg ?c1 = 338112"
    and e2: "excess ?cfg ?c2 = 0"
    by (simp_all add: excess_def)
  have some: "\<not> (\<forall>c \<in> set (candidates ?cfg (sensor_formats example_hw)). excess ?cfg c = - 1)"
    by (simp add: cands e0 e1 e2)
  have only: "i = 2" if "first_minimal ?cfg [?c0, ?c1, ?c2] i" for i
  proof -
    from that have i: "i < length [?c0, ?c1, ?c2]"
      and all: "\<forall>j < length [?c0, ?c1, ?c2].
                 excess ?cfg ([?c0, ?c1, ?c2] ! i) \<le> excess ?cfg ([?c0, ?c1, ?c2] ! j)"
      unfolding first_minimal_def by blast+
    from all have "excess ?cfg ([?c0, ?c1, ?c2] ! i) \<le> excess ?cfg ([?c0, ?c1, ?c2] ! 2)"
      by (rule allE [of _ 2]) simp
    then have le: "excess ?cfg ([?c0, ?c1, ?c2] ! i) \<le> 0"
      by (simp add: e2)
    from i have "i < 3" by simp
    then consider "i = 0" | "i = 1" | "i = 2" by linarith
    then show ?thesis
      using le by cases (simp_all add: e0 e1)
  qed
  have pre: "config_map ?s (stream (camera_data ?s)) = Some ?cfg"
    "width ?cfg mod 8 = 0" "height ?cfg mod 4 = 0"
    "width ?cfg \<le> Size.width (maxSize (cio2 (camera_data ?s)))"
    "height ?cfg \<le> Size.height (maxSize (cio2 (camera_data ?s)))"
    by (simp_all add: example_pipeline_def example_data_def)
  from configureStreams_selects_and_applies [OF pre example_hw_accepting, THEN conjunct2]
  obtain sf where
    sel: "if \<forall>c \<in> set (candidates ?cfg (sensor_formats example_hw)). excess ?cfg c = - 1
          then sf = V4L2SubdeviceFormat_zero
          else \<exists>i. first_minimal ?cfg (candidates ?cfg (sensor_formats example_hw)) i
                   \<and> sf = format_of (candidates ?cfg (sensor_formats example_hw) ! i)"
    and run: "fst (configureStreams example_hw ?s) = 0"
      "v4l2_calls (snd (configureStreams example_hw ?s)) =
         v4l2_calls ?s @
           [Subdev_setFormat Sensor 0 sf,
               Subdev_setFormat Csi2 0 sf,
               Dev_setFormat Cio2Output
                 \<lparr>V4L2DeviceFormat.width = V4L2SubdeviceFormat.width sf,
                  V4L2DeviceFormat.height = V4L2SubdeviceFormat.height sf,
                  fourcc = word_of_int (mediaBusToFormat (mbus_code sf)), planesCount = 1\<rparr>,
               Dev_setFormat ImguInput
                 \<lparr>V4L2DeviceFormat.width = V4L2SubdeviceFormat.width sf,
                  V4L2DeviceFormat.height = V4L2SubdeviceFormat.height sf,
                  fourcc = word_of_int (mediaBusToFormat (mbus_code sf)), planesCount = 1\<rparr>,
               Subdev_setCrop Imgu PAD_INPUT
                 \<lparr>rect_x = 0, rect_y = 0, rect_w = V4L2SubdeviceFormat.width sf,
                  rect_h = V4L2SubdeviceFormat.height sf\<rparr>,
               Subdev_setCompose Imgu PAD_INPUT
                 \<lparr>rect_x = 0, rect_y = 0, rect_w = V4L2SubdeviceFormat.width sf,
                  rect_h = V4L2SubdeviceFormat.height sf\<rparr>,
               Subdev_setFormat Imgu PAD_INPUT
                 \<lparr>mbus_code = MEDIA_BUS_FMT_FIXED, V4L2SubdeviceFormat.width = width ?cfg,
                  V4L2SubdeviceFormat.height = height ?cfg\<rparr>,
               Subdev_setFormat Imgu (pad (imgu_output (imgu (camera_data ?s))))
                 \<lparr>mbus_code = MEDIA_BUS_FMT_FIXED, V4L2SubdeviceFormat.width = width ?cfg,
                  V4L2SubdeviceFormat.height = height ?cfg\<rparr>,
               Dev_setFormat (dev (imgu_output (imgu (camera_data ?s))))
                 \<lparr>V4L2DeviceFormat.width = width ?cfg, V4L2DeviceFormat.height = height ?cfg,
                  fourcc = V4L2_PIX_FMT_NV12, planesCount = 2\<rparr>,
               Subdev_setFormat Imgu (pad (imgu_viewfinder (imgu (camera_data ?s))))
                 \<lparr>mbus_code = MEDIA_BUS_FMT_FIXED, V4L2SubdeviceFormat.width = width ?cfg,
                  V4L2SubdeviceFormat.height = height ?cfg\<rparr>,
               Dev_setFormat (dev (imgu_viewfinder (imgu (camera_data ?s))))
                 \<lparr>V4L2DeviceFormat.width = width ?cfg, V4L2DeviceFormat.height = height ?cfg,
                  fourcc = V4L2_PIX_FMT_NV12, planesCount = 2\<rparr>,
               Subdev_setFormat Imgu (pad (imgu_stat (imgu (camera_data ?s))))
                 \<lparr>mbus_code = MEDIA_BUS_FMT_FIXED, V4L2SubdeviceFormat.width = width ?cfg,
                  V4L2SubdeviceFormat.height = height ?cfg\<rparr>]"
      "config_map (snd (configureStreams example_hw ?s)) = config_map ?s"
      "camera_data (snd (configureStreams example_hw ?s)) = camera_data ?s"
    by auto
  from sel some obtain i where fm: "first_minimal ?cfg [?c0, ?c1, ?c2] i"
    and sfi: "sf = format_of ([?c0, ?c1, ?c2] ! i)"
    unfolding cands by auto
  from only [OF fm] have "i = 2" .
  with sfi have sf: "sf = format_of ?c2" by simp
  have "snd (configureStreams example_hw ?s) =
          ?s\<lparr>v4l2_calls := v4l2_calls (snd (configureStreams example_hw ?s))\<rparr>"
    using run(3,4) by (cases "snd (configureStreams example_hw ?s)") (simp add: example_pipeline_def)
  then have "configureStreams example_hw ?s =
          (0, ?s\<lparr>v4l2_calls := v4l2_calls (snd (configureStreams example_hw ?s))\<rparr>)"
    using run(1) by (metis prod.collapse)
  then show ?thesis
    unfolding run(2) sf
    by (simp add: format_of_def example_pipeline_def example_data_def ImgUDevice_ready_def
        mediaBusToFormat_def mbus_defs fourcc_defs PAD_INPUT_def PAD_OUTPUT_def PAD_VF_def
        PAD_STAT_def)
qed



subsection \<open>streamConfiguration\<close>

text \<open>
  \<^verbatim>\<open>streamConfiguration\<close> sets the entry of the camera's own stream and no other, whatever the
  set \<open>streams\<close>.
\<close>

lemma streamConfiguration_result:
  "streamConfiguration env cs data streams =
     (if fst (subdev_getFormat env cs Sensor 0 V4L2SubdeviceFormat_zero) \<noteq> 0 then Map.empty
      else [stream data \<mapsto>
              \<lparr>width = V4L2SubdeviceFormat.width
                         (snd (subdev_getFormat env cs Sensor 0 V4L2SubdeviceFormat_zero)),
               height = V4L2SubdeviceFormat.height
                          (snd (subdev_getFormat env cs Sensor 0 V4L2SubdeviceFormat_zero)),
               pixelFormat = V4L2_PIX_FMT_IPU3_SGRBG10, bufferCount = 4\<rparr>])"
  by (simp add: streamConfiguration_def Let_def split_beta StreamConfiguration_zero_def)

text \<open>
  Claim C6. Let a non-empty set of streams of the camera be requested; \<^verbatim>\<open>registerCameras\<close>
  creates the camera with the single stream of its \<^verbatim>\<open>IPU3CameraData\<close>, so the streams of the
  camera are that one. When the query of the sensor's current format succeeds,
  \<^verbatim>\<open>streamConfiguration\<close> returns one configuration per requested stream, each with the width
  and height of the sensor's current format, the pixel format IPU3_SGRBG10 and four
  buffers; when the query fails it returns no configuration.
\<close>

theorem streamConfiguration_single_stream:
  assumes "streams \<noteq> {}" and "streams \<subseteq> {stream data}"
  shows "(fst (subdev_getFormat env cs Sensor 0 V4L2SubdeviceFormat_zero) = 0 \<longrightarrow>
            dom (streamConfiguration env cs data streams) = streams
            \<and> (\<forall>st \<in> streams. streamConfiguration env cs data streams st =
                 Some \<lparr>width = V4L2SubdeviceFormat.width
                               (snd (subdev_getFormat env cs Sensor 0 V4L2SubdeviceFormat_zero)),
                       height = V4L2SubdeviceFormat.height
                                (snd (subdev_getFormat env cs Sensor 0 V4L2SubdeviceFormat_zero)),
                       pixelFormat = V4L2_PIX_FMT_IPU3_SGRBG10, bufferCount = 4\<rparr>))
       \<and> (fst (subdev_getFormat env cs Sensor 0 V4L2SubdeviceFormat_zero) \<noteq> 0 \<longrightarrow>
            streamConfiguration env cs data streams = Map.empty)"
proof -
  from assms have "streams = {stream data}" by blast
  then show ?thesis
    by (simp add: streamConfiguration_result)
qed

theorem streamConfiguration_single_stream_witness:
  "dom (streamConfiguration example_hw [] example_data {0}) = {0}
   \<and> streamConfiguration example_hw [] example_data {0} 0 =
       Some \<lparr>width = 2592, height = 1944, pixelFormat = 0x47337069, bufferCount = 4\<rparr>
   \<and> streamConfiguration (example_hw\<lparr>subdev_getFormat := (\<lambda>cs d pad f. (- EINVAL, f))\<rparr>)
         [] example_data {0} = Map.empty"
proof -
  have ok: "fst (subdev_getFormat example_hw [] Sensor 0 V4L2SubdeviceFormat_zero) = 0"
    and own: "{0} \<subseteq> {stream example_data}" and ne: "{0 :: stream_id} \<noteq> {}"
    by (simp_all add: example_hw_def example_data_def)
  from streamConfiguration_single_stream [OF ne own, of example_hw "[]"] ok
  have "dom (streamConfiguration example_hw [] example_data {0}) = {0}"
    and "streamConfiguration example_hw [] example_data {0} 0 =
           Some \<lparr>width = V4L2SubdeviceFormat.width
                         (snd (subdev_getFormat example_hw [] Sensor 0 V4L2SubdeviceFormat_zero)),
                 height = V4L2SubdeviceFormat.height
                          (snd (subdev_getFormat example_hw [] Sensor 0 V4L2SubdeviceFormat_zero)),
                 pixelFormat = V4L2_PIX_FMT_IPU3_SGRBG10, bufferCount = 4\<rparr>"
    by simp_all
  then have a: "dom (streamConfiguration example_hw [] example_data {0}) = {0}"
    and b: "streamConfiguration example_hw [] example_data {0} 0 =
       Some \<lparr>width = 2592, height = 1944, pixelFormat = 0x47337069, bufferCount = 4\<rparr>"
    by (simp_all add: example_hw_def example_data_def fourcc_defs)
  let ?env = "example_hw\<lparr>subdev_getFormat := (\<lambda>cs d pad f. (- EINVAL, f))\<rparr>"
  have bad: "fst (subdev_getFormat ?env [] Sensor 0 V4L2SubdeviceFormat_zero) \<noteq> 0"
    by (simp add: EINVAL_def)
  from streamConfiguration_single_stream [OF ne own, of ?env "[]"] bad
  have c: "streamConfiguration ?env [] example_data {0} = Map.empty"
    by blast
  from a b c show ?thesis by simp
qed

subsection \<open>queueRequest\<close>

text \<open>
  Claim C4, as the code has it. When the request holds no buffer for the camera's stream,
  \<^verbatim>\<open>queueRequest\<close> returns \<^verbatim>\<open>-ENOENT\<close> and changes nothing. When the ingress device answers
  the buffer with a negative code, \<^verbatim>\<open>queueRequest\<close> returns that code. Every return other
  than 0 is negative and leaves the queued FIFO as it was; a return of 0 has appended the
  request to the FIFO.
\<close>

theorem queueRequest_failure:
  "(findBuffer request (stream data) = None \<longrightarrow>
      queueRequest env data request s = (- ENOENT, s))
   \<and> (\<forall>buffer. findBuffer request (stream data) = Some buffer
         \<and> dev_queueBuffer env (capture_calls s) Cio2Output buffer < 0 \<longrightarrow>
         fst (queueRequest env data request s)
           = dev_queueBuffer env (capture_calls s) Cio2Output buffer)
   \<and> (fst (queueRequest env data request s) \<noteq> 0 \<longrightarrow>
         fst (queueRequest env data request s) < 0
         \<and> queuedRequests (snd (queueRequest env data request s)) = queuedRequests s)
   \<and> (fst (queueRequest env data request s) = 0 \<longrightarrow>
         queuedRequests (snd (queueRequest env data request s)) = queuedRequests s @ [request])"
  by (auto simp: queueRequest_def V4L2Device_queueBuffer_def PipelineHandler_queueRequest_def
      Let_def ENOENT_def split: option.splits)

theorem queueRequest_failure_witness:
  "queueRequest example_hw example_data \<lparr>request_id = 1, buffers = []\<rparr> capture_init
     = (- 2, capture_init)
   \<and> fst (queueRequest refusing_hw example_data \<lparr>request_id = 1, buffers = [(0, 5)]\<rparr>
            capture_init) = - 16
   \<and> queuedRequests (snd (queueRequest refusing_hw example_data
            \<lparr>request_id = 1, buffers = [(0, 5)]\<rparr> capture_init)) = []
   \<and> queuedRequests (snd (queueRequest example_hw example_data
            \<lparr>request_id = 1, buffers = [(0, 5)]\<rparr> capture_init))
       = [\<lparr>request_id = 1, buffers = [(0, 5)]\<rparr>]"
proof -
  let ?r0 = "\<lparr>request_id = 1, buffers = []\<rparr>"
  let ?r1 = "\<lparr>request_id = 1, buffers = [(0, 5)]\<rparr>"
  have none: "findBuffer ?r0 (stream example_data) = None"
    by (simp add: findBuffer_def)
  have some: "findBuffer ?r1 (stream example_data) = Some 5"
    by (simp add: findBuffer_def example_data_def)
  have refuse: "dev_queueBuffer refusing_hw (capture_calls capture_init) Cio2Output 5 = - 16"
    by (simp add: refusing_hw_def EBUSY_def)
  from queueRequest_failure [of ?r0 example_data example_hw capture_init] none
  have a: "queueRequest example_hw example_data ?r0 capture_init = (- ENOENT, capture_init)"
    by blast
  from queueRequest_failure [of ?r1 example_data refusing_hw capture_init] some refuse
  have b: "fst (queueRequest refusing_hw example_data ?r1 capture_init) = - 16"
    by auto
  with queueRequest_failure [of ?r1 example_data refusing_hw capture_init]
  have c: "queuedRequests (snd (queueRequest refusing_hw example_data ?r1 capture_init))
             = queuedRequests capture_init"
    by auto
  have ok: "fst (queueRequest example_hw example_data ?r1 capture_init) = 0"
    by (simp add: queueRequest_def findBuffer_def example_data_def V4L2Device_queueBuffer_def
        example_hw_def Let_def)
  with queueRequest_failure [of ?r1 example_data example_hw capture_init]
  have d: "queuedRequests (snd (queueRequest example_hw example_data ?r1 capture_init))
             = queuedRequests capture_init @ [?r1]"
    by blast
  show ?thesis
    using a b c d by (simp add: ENOENT_def capture_init_def)
qed

text \<open>
  The claim as stated fails for a request without a buffer for the camera's stream: the
  return value is \<^verbatim>\<open>-ENOENT\<close>, and \<^verbatim>\<open>ENOENT\<close> is none of the documented error codes.
\<close>

theorem queueRequest_missing_buffer_undocumented_code:
  "fst (queueRequest example_hw example_data \<lparr>request_id = 1, buffers = []\<rparr>
          capture_init) = - ENOENT
   \<and> - fst (queueRequest example_hw example_data \<lparr>request_id = 1, buffers = []\<rparr>
            capture_init) \<notin> documented_errors"
  by (simp add: queueRequest_def findBuffer_def documented_errors_def errno_defs)

subsection \<open>Completion in the order of queueing\<close>

lemma completed_requests_append:
  "completed_requests (xs @ ys) = completed_requests xs @ completed_requests ys"
  by (induction xs rule: completed_requests.induct) simp_all

lemma request_of_camera_buffers:
  assumes own: "request_of_camera data request"
    and buf: "findBuffer request (stream data) = Some buffer"
  shows "buffers request = [(stream data, buffer)]"
proof (cases "buffers request")
  case Nil
  with buf show ?thesis by (simp add: findBuffer_def)
next
  case (Cons e es)
  obtain k v where e: "e = (k, v)" by (cases e)
  from own Cons e have k: "k = stream data"
    and rest: "set (map fst es) \<subseteq> {stream data}" and fresh: "k \<notin> set (map fst es)"
    by (auto simp: request_of_camera_def)
  from rest fresh k have "es = []" by (cases es) auto
  with buf Cons e k show ?thesis by (simp add: findBuffer_def)
qed

lemma bufferReady_head:
  assumes q: "queuedRequests s = request # rest"
    and own: "request_of_camera data request"
    and buf: "findBuffer request (stream data) = Some buffer"
  shows "bufferReady buffer s =
           Some (s\<lparr>queuedRequests := rest,
                   signals := signals s @ [BufferCompleted request buffer,
                                           RequestCompleted request]\<rparr>)"
proof -
  let ?s1 = "PipelineHandler_completeBuffer request buffer s"
  have s1: "?s1 = s\<lparr>signals := signals s @ [BufferCompleted request buffer]\<rparr>"
    by (simp add: PipelineHandler_completeBuffer_def)
  have "every_stream_completed request ?s1"
    unfolding every_stream_completed_def request_of_camera_buffers [OF own buf] s1
    by simp
  then have "PipelineHandler_completeRequest request ?s1 =
               ?s1\<lparr>queuedRequests := tl (queuedRequests ?s1),
                    signals := signals ?s1 @ [RequestCompleted request]\<rparr>"
    by (simp only: PipelineHandler_completeRequest_def if_True)
  also have "\<dots> = s\<lparr>queuedRequests := rest,
                   signals := signals s @ [BufferCompleted request buffer,
                                           RequestCompleted request]\<rparr>"
    unfolding s1 by (simp add: q)
  finally show ?thesis
    by (simp add: bufferReady_def q)
qed

lemma complete_before_snoc:
  assumes cb: "complete_before sigs"
    and own: "request_of_camera data request"
    and buf: "findBuffer request (stream data) = Some buffer"
  shows "complete_before (sigs @ [BufferCompleted request buffer, RequestCompleted request])"
  unfolding complete_before_def
proof (intro allI impI ballI)
  fix i r e
  let ?new = "sigs @ [BufferCompleted request buffer, RequestCompleted request]"
  assume i: "i < length ?new" and at: "?new ! i = RequestCompleted r"
    and has: "e \<in> set (buffers r)"
  consider "i < length sigs" | "i = length sigs" | "i = Suc (length sigs)"
    using i by (simp add: less_Suc_eq) linarith
  then show "case e of (st, b) \<Rightarrow> \<exists>j<i. ?new ! j = BufferCompleted r b"
  proof cases
    case 1
    with at have "sigs ! i = RequestCompleted r" by (simp add: nth_append)
    with cb 1 have "\<forall>(st, b) \<in> set (buffers r). \<exists>j<i. sigs ! j = BufferCompleted r b"
      unfolding complete_before_def by (elim allE [of _ i] impE allE [of _ r]) assumption+
    then have old: "case e of (st, b) \<Rightarrow> \<exists>j<i. sigs ! j = BufferCompleted r b"
      using has by (rule bspec)
    obtain st b where e: "e = (st, b)" by (cases e)
    with old obtain j where j: "j < i" "sigs ! j = BufferCompleted r b" by auto
    from j 1 have "?new ! j = BufferCompleted r b" by (simp add: nth_append)
    with j e show ?thesis by auto
  next
    case 2
    with at show ?thesis by (simp add: nth_append)
  next
    case 3
    with at have r: "r = request" by (simp add: nth_append)
    with has request_of_camera_buffers [OF own buf] have "e = (stream data, buffer)" by simp
    with 3 r show ?thesis
      by (auto simp: nth_append intro!: exI [of _ "length sigs"])
  qed
qed

lemma queueRequest_fifo:
  assumes own: "request_of_camera data request"
    and inv: "fifo_inv data s"
  shows "fifo_inv data (snd (queueRequest env data request s))
         \<and> signals (snd (queueRequest env data request s)) = signals s
         \<and> queuedRequests (snd (queueRequest env data request s)) =
             queuedRequests s @ (if fst (queueRequest env data request s) = 0 then [request] else [])"
proof (cases "findBuffer request (stream data)")
  case None
  then show ?thesis using inv by (simp add: queueRequest_def ENOENT_def)
next
  case (Some buffer)
  let ?ret = "dev_queueBuffer env (capture_calls s) Cio2Output buffer"
  show ?thesis
  proof (cases "?ret < 0")
    case True
    then show ?thesis
      using Some inv
      by (simp add: queueRequest_def V4L2Device_queueBuffer_def Let_def fifo_inv_def)
  next
    case False
    then show ?thesis
      using Some inv own
      by (simp add: queueRequest_def V4L2Device_queueBuffer_def Let_def fifo_inv_def
          PipelineHandler_queueRequest_def)
  qed
qed

lemma device_completes_fifo:
  assumes inv: "fifo_inv data s" and cb: "complete_before (signals s)"
  shows "\<exists>s'. device_completes s = Some s' \<and> fifo_inv data s'
           \<and> complete_before (signals s')
           \<and> completed_requests (signals s') @ queuedRequests s'
               = completed_requests (signals s) @ queuedRequests s"
proof (cases "dev_queue s")
  case Nil
  then show ?thesis using inv cb by (simp add: device_completes_def)
next
  case (Cons buffer held)
  with inv obtain request rest where q: "queuedRequests s = request # rest"
    and buf: "findBuffer request (stream data) = Some buffer"
    and rest: "map (\<lambda>request. findBuffer request (stream data)) rest = map Some held"
    and own: "request_of_camera data request"
    and owns: "\<forall>request \<in> set rest. request_of_camera data request"
    by (cases "queuedRequests s") (auto simp: fifo_inv_def)
  let ?s' = "s\<lparr>dev_queue := held, queuedRequests := rest,
               signals := signals s @ [BufferCompleted request buffer, RequestCompleted request]\<rparr>"
  from q have "queuedRequests (s\<lparr>dev_queue := held\<rparr>) = request # rest" by simp
  from bufferReady_head [OF this own buf]
  have "device_completes s = Some ?s'"
    using Cons by (simp add: device_completes_def)
  moreover have "fifo_inv data ?s'"
    using rest owns by (simp add: fifo_inv_def)
  moreover have "complete_before (signals ?s')"
    using complete_before_snoc [OF cb own buf] by simp
  moreover have "completed_requests (signals ?s') @ queuedRequests ?s'
               = completed_requests (signals s) @ queuedRequests s"
    using q by (simp add: completed_requests_append)
  ultimately show ?thesis by blast
qed

lemma run_fifo:
  assumes own: "\<forall>request \<in> set (requests_of es). request_of_camera data request"
    and inv: "fifo_inv data s" and cb: "complete_before (signals s)"
  shows "\<exists>s'. run env data es s = Some s' \<and> fifo_inv data s'
           \<and> complete_before (signals s')
           \<and> completed_requests (signals s') @ queuedRequests s'
               = completed_requests (signals s) @ queuedRequests s @ accepted env data es s"
  using own inv cb
proof (induction es arbitrary: s)
  case Nil
  then show ?case by simp
next
  case (Cons e es)
  show ?case
  proof (cases e)
    case (Ev_queueRequest request)
    with Cons.prems have r: "request_of_camera data request"
      and rs: "\<forall>request \<in> set (requests_of es). request_of_camera data request"
      by simp_all
    let ?s1 = "snd (queueRequest env data request s)"
    from queueRequest_fifo [OF r Cons.prems(2)]
    have inv1: "fifo_inv data ?s1" and sig1: "signals ?s1 = signals s"
      and q1: "queuedRequests ?s1 =
             queuedRequests s @ (if fst (queueRequest env data request s) = 0 then [request] else [])"
      by simp_all
    from Cons.prems(3) sig1 have cb1: "complete_before (signals ?s1)" by simp
    from Cons.IH [OF rs inv1 cb1] obtain s' where
      "run env data es ?s1 = Some s'" "fifo_inv data s'" "complete_before (signals s')"
      "completed_requests (signals s') @ queuedRequests s'
         = completed_requests (signals ?s1) @ queuedRequests ?s1 @ accepted env data es ?s1"
      by blast
    then show ?thesis
      using Ev_queueRequest sig1 q1 by simp
  next
    case Ev_bufferReady
    with Cons.prems have rs: "\<forall>request \<in> set (requests_of es). request_of_camera data request"
      by simp
    from device_completes_fifo [OF Cons.prems(2,3)] obtain s1 where
      d: "device_completes s = Some s1" and inv1: "fifo_inv data s1"
      and cb1: "complete_before (signals s1)"
      and eq1: "completed_requests (signals s1) @ queuedRequests s1
               = completed_requests (signals s) @ queuedRequests s"
      by blast
    from Cons.IH [OF rs inv1 cb1] obtain s' where
      "run env data es s1 = Some s'" "fifo_inv data s'" "complete_before (signals s')"
      "completed_requests (signals s') @ queuedRequests s'
         = completed_requests (signals s1) @ queuedRequests s1 @ accepted env data es s1"
      by blast
    then show ?thesis
      using Ev_bufferReady d eq1 by simp
  qed
qed

text \<open>
  Claim C3. Each invocation of the completion slot on a FIFO whose head is a request of the
  camera completes that request: it emits \<^verbatim>\<open>bufferCompleted\<close> for the head request and the
  completed buffer, then, every stream of the request being completed, \<^verbatim>\<open>requestCompleted\<close>
  for the head request, and pops it. Let requests of the camera be queued and buffers
  complete in any interleaving, from an idle camera. Then the run never reaches the slot
  with an empty FIFO; the requests whose \<^verbatim>\<open>requestCompleted\<close> was emitted, followed by those
  still queued, are the requests \<^verbatim>\<open>queueRequest\<close> accepted, in the order of the calls; every
  \<^verbatim>\<open>requestCompleted\<close> comes after a \<^verbatim>\<open>bufferCompleted\<close> for each buffer of its request; and
  the device holds the buffers of the queued requests in the same order.
\<close>

theorem completion_in_queue_order:
  assumes own: "\<forall>request \<in> set (requests_of es). request_of_camera data request"
  shows "(\<forall>buffer s request rest.
            queuedRequests s = request # rest \<and> request_of_camera data request
            \<and> findBuffer request (stream data) = Some buffer \<longrightarrow>
            bufferReady buffer s =
              Some (s\<lparr>queuedRequests := rest,
                      signals := signals s @ [BufferCompleted request buffer,
                                              RequestCompleted request]\<rparr>))
   \<and> (\<exists>s. run env data es capture_init = Some s
          \<and> completed_requests (signals s) @ queuedRequests s
              = accepted env data es capture_init
          \<and> complete_before (signals s)
          \<and> map (\<lambda>request. findBuffer request (stream data)) (queuedRequests s)
              = map Some (dev_queue s))"
proof -
  have inv0: "fifo_inv data capture_init" and cb0: "complete_before (signals capture_init)"
    by (simp_all add: fifo_inv_def capture_init_def complete_before_def)
  from run_fifo [OF own inv0 cb0] obtain s where
    "run env data es capture_init = Some s" "fifo_inv data s" "complete_before (signals s)"
    "completed_requests (signals s) @ queuedRequests s
       = completed_requests (signals capture_init) @ queuedRequests capture_init
         @ accepted env data es capture_init"
    by blast
  then have "\<exists>s. run env data es capture_init = Some s
          \<and> completed_requests (signals s) @ queuedRequests s
              = accepted env data es capture_init
          \<and> complete_before (signals s)
          \<and> map (\<lambda>request. findBuffer request (stream data)) (queuedRequests s)
              = map Some (dev_queue s)"
    by (auto simp: capture_init_def fifo_inv_def)
  with bufferReady_head show ?thesis by blast
qed

theorem completion_in_queue_order_witness:
  "run example_hw example_data
     [Ev_queueRequest (example_request 1 10), Ev_queueRequest (example_request 2 11),
      Ev_bufferReady, Ev_queueRequest (example_request 3 12), Ev_bufferReady] capture_init
   = Some \<lparr>queuedRequests = [example_request 3 12], dev_queue = [12],
           signals = [BufferCompleted (example_request 1 10) 10,
                      RequestCompleted (example_request 1 10),
                      BufferCompleted (example_request 2 11) 11,
                      RequestCompleted (example_request 2 11)],
           capture_calls = [Dev_queueBuffer Cio2Output 10, Dev_queueBuffer Cio2Output 11,
                            Dev_queueBuffer Cio2Output 12]\<rparr>
   \<and> accepted example_hw example_data
       [Ev_queueRequest (example_request 1 10), Ev_queueRequest (example_request 2 11),
        Ev_bufferReady, Ev_queueRequest (example_request 3 12), Ev_bufferReady] capture_init
     = [example_request 1 10, example_request 2 11, example_request 3 12]
   \<and> complete_before [BufferCompleted (example_request 1 10) 10,
                      RequestCompleted (example_request 1 10),
                      BufferCompleted (example_request 2 11) 11,
                      RequestCompleted (example_request 2 11)]"
proof -
  let ?es = "[Ev_queueRequest (example_request 1 10), Ev_queueRequest (example_request 2 11),
      Ev_bufferReady, Ev_queueRequest (example_request 3 12), Ev_bufferReady]"
  let ?final = "\<lparr>queuedRequests = [example_request 3 12], dev_queue = [12],
           signals = [BufferCompleted (example_request 1 10) 10,
                      RequestCompleted (example_request 1 10),
                      BufferCompleted (example_request 2 11) 11,
                      RequestCompleted (example_request 2 11)],
           capture_calls = [Dev_queueBuffer Cio2Output 10, Dev_queueBuffer Cio2Output 11,
                            Dev_queueBuffer Cio2Output 12]\<rparr>"
  have own: "\<forall>request \<in> set (requests_of ?es). request_of_camera example_data request"
    by (simp add: request_of_camera_def example_request_def example_data_def)
  have q: "queueRequest example_hw example_data (example_request n b) s =
             (0, s\<lparr>capture_calls := capture_calls s @ [Dev_queueBuffer Cio2Output b],
                   dev_queue := dev_queue s @ [b],
                   queuedRequests := queuedRequests s @ [example_request n b]\<rparr>)" for n b s
    by (simp add: queueRequest_def findBuffer_def example_request_def example_data_def
        V4L2Device_queueBuffer_def example_hw_def PipelineHandler_queueRequest_def Let_def)
  have d: "device_completes s =
             Some (s\<lparr>dev_queue := held, queuedRequests := rest,
                     signals := signals s @ [BufferCompleted (example_request n b) b,
                                             RequestCompleted (example_request n b)]\<rparr>)"
    if "dev_queue s = b # held" and "queuedRequests s = example_request n b # rest"
    for s b held n rest
    using that
    by (simp add: device_completes_def bufferReady_def
        PipelineHandler_completeRequest_def PipelineHandler_completeBuffer_def
        every_stream_completed_def example_request_def)
  have r: "run example_hw example_data ?es capture_init = Some ?final"
    by (simp add: q d capture_init_def)
  from completion_in_queue_order [OF own] obtain s where
    s: "run example_hw example_data ?es capture_init = Some s"
    and order: "completed_requests (signals s) @ queuedRequests s
              = accepted example_hw example_data ?es capture_init"
    and cb: "complete_before (signals s)"
    by blast
  from s r have "s = ?final" by simp
  with order cb have "accepted example_hw example_data ?es capture_init
      = [example_request 1 10, example_request 2 11, example_request 3 12]"
    and "complete_before [BufferCompleted (example_request 1 10) 10,
                      RequestCompleted (example_request 1 10),
                      BufferCompleted (example_request 2 11) 11,
                      RequestCompleted (example_request 2 11)]"
    by simp_all
  with r show ?thesis by simp
qed


subsection \<open>registerCameras\<close>

lemma registerCameras_loop_step:
  "n < 4 \<Longrightarrow> k < 2 \<Longrightarrow>
   registerCameras_loop m imgu0 imgu1 n k cams =
     (case CIO2Device_init m n of
        Inl ret \<Rightarrow> registerCameras_loop m imgu0 imgu1 (Suc n) k cams
      | Inr d \<Rightarrow>
          registerCameras_loop m imgu0 imgu1 (Suc n) (Suc k)
            (cams @ [\<lparr>receiver = n,
                      data_of = \<lparr>cio2 = d, imgu = (if k \<noteq> 0 then imgu1 else imgu0),
                                 stream = n\<rparr>\<rparr>]))"
  by (subst registerCameras_loop.simps) (simp split: sum.split)

lemma registerCameras_loop_stop:
  "\<not> n < 4 \<or> \<not> k < 2 \<Longrightarrow> registerCameras_loop m imgu0 imgu1 n k cams = (k, cams)"
  by (subst registerCameras_loop.simps) auto

lemma ImgUDevice_init_Inr:
  "ImgUDevice_init m n = Inr im \<Longrightarrow> im = ImgUDevice_ready n"
  by (simp add: ImgUDevice_init_def Let_def split: if_splits)

text \<open>
  Claim C10. Let both ImgU instances initialise. \<^verbatim>\<open>registerCameras\<close> registers the cameras
  of the first two receivers, in increasing order of the ids 0 to 3, whose \<^verbatim>\<open>CIO2Device::init\<close>
  succeeds; a receiver whose \<^verbatim>\<open>init\<close> fails is passed over and the scan goes on. So at most
  two cameras are registered. The first gets the ImgU instance 0 and the second the
  instance 1, each camera holds the CIO2 device its \<^verbatim>\<open>init\<close> left, and the return value is
  \<^verbatim>\<open>-ENODEV\<close> when no camera was registered and 0 otherwise.
\<close>

theorem registerCameras_scan:
  assumes i0: "ImgUDevice_init m 0 = Inr imgu0" and i1: "ImgUDevice_init m 1 = Inr imgu1"
  shows "map receiver (snd (registerCameras m))
           = take 2 (filter (\<lambda>n. \<not> isl (CIO2Device_init m n)) [0, 1, 2, 3])
     \<and> map (\<lambda>c. imgu (data_of c)) (snd (registerCameras m))
           = take (length (snd (registerCameras m))) [imgu0, imgu1]
     \<and> index imgu0 = 0 \<and> index imgu1 = 1
     \<and> (\<forall>c \<in> set (snd (registerCameras m)).
           CIO2Device_init m (receiver c) = Inr (cio2 (data_of c)))
     \<and> length (snd (registerCameras m)) \<le> 2
     \<and> fst (registerCameras m) = (if snd (registerCameras m) = [] then - ENODEV else 0)"
proof -
  have idx: "index imgu0 = 0" "index imgu1 = 1"
    using ImgUDevice_init_Inr [OF i0] ImgUDevice_init_Inr [OF i1]
    by (simp_all add: ImgUDevice_ready_def)
  have rest: "map receiver (snd (registerCameras m))
           = take 2 (filter (\<lambda>n. \<not> isl (CIO2Device_init m n)) [0, 1, 2, 3])
     \<and> map (\<lambda>c. imgu (data_of c)) (snd (registerCameras m))
           = take (length (snd (registerCameras m))) [imgu0, imgu1]
     \<and> (\<forall>c \<in> set (snd (registerCameras m)).
           CIO2Device_init m (receiver c) = Inr (cio2 (data_of c)))
     \<and> length (snd (registerCameras m)) \<le> 2
     \<and> fst (registerCameras m) = (if snd (registerCameras m) = [] then - ENODEV else 0)"
    unfolding registerCameras_def i0 i1
    by (cases "CIO2Device_init m 0"; cases "CIO2Device_init m 1";
        cases "CIO2Device_init m 2"; cases "CIO2Device_init m 3")
       (simp_all add: registerCameras_loop_step registerCameras_loop_stop eval_nat_numeral)
  with idx show ?thesis by simp
qed

lemma CIO2Device_init_example:
  "CIO2Device_init example_media 0 = Inl (- ENODEV)"
  "CIO2Device_init example_media 2 = Inl (- ENODEV)"
  "CIO2Device_init example_media 1 =
     Inr \<lparr>mbusCode = V4L2_PIX_FMT_IPU3_SGRBG10,
          maxSize = \<lparr>Size.width = 2592, Size.height = 1944\<rparr>\<rparr>"
  "CIO2Device_init example_media 3 =
     Inr \<lparr>mbusCode = V4L2_PIX_FMT_IPU3_SGRBG10,
          maxSize = \<lparr>Size.width = 2592, Size.height = 1944\<rparr>\<rparr>"
  by (simp_all add: CIO2Device_init_def example_media_def sensor_link_def example_hw_def
      MEDIA_ENT_F_CAM_SENSOR_def mediaBusToFormat_def mbus_defs fourcc_defs Let_def)

theorem registerCameras_scan_witness:
  "map receiver (snd (registerCameras example_media)) = [1, 3]
   \<and> map (\<lambda>c. index (imgu (data_of c))) (snd (registerCameras example_media)) = [0, 1]
   \<and> fst (registerCameras example_media) = 0"
proof -
  have i0: "ImgUDevice_init example_media 0 = Inr (ImgUDevice_ready 0)"
    and i1: "ImgUDevice_init example_media 1 = Inr (ImgUDevice_ready 1)"
    by (simp_all add: ImgUDevice_init_def example_media_def)
  have ok: "filter (\<lambda>n. \<not> isl (CIO2Device_init example_media n)) [0, 1, 2, 3] = [1, 3]"
    using CIO2Device_init_example by (simp add: eval_nat_numeral)
  note scan = registerCameras_scan [OF i0 i1]
  from scan have "map receiver (snd (registerCameras example_media))
           = take 2 (filter (\<lambda>n. \<not> isl (CIO2Device_init example_media n)) [0, 1, 2, 3])"
    by (rule conjunct1)
  then have ids: "map receiver (snd (registerCameras example_media)) = [1, 3]"
    unfolding ok by simp
  from scan have imgus: "map (\<lambda>c. imgu (data_of c)) (snd (registerCameras example_media))
           = take (length (snd (registerCameras example_media)))
               [ImgUDevice_ready 0, ImgUDevice_ready 1]"
    by (rule conjunct2 [THEN conjunct1])
  from scan have ret: "fst (registerCameras example_media)
           = (if snd (registerCameras example_media) = [] then - ENODEV else 0)"
    by blast
  from ids have len: "length (snd (registerCameras example_media)) = 2"
    by (metis length_map length_Cons list.size(3) numeral_2_eq_2)
  from ids have ne: "snd (registerCameras example_media) \<noteq> []" by auto
  have "map (\<lambda>c. index (imgu (data_of c))) (snd (registerCameras example_media))
          = map index (map (\<lambda>c. imgu (data_of c)) (snd (registerCameras example_media)))"
    by simp
  also have "\<dots> = [0, 1]"
    unfolding imgus len by (simp add: ImgUDevice_ready_def)
  finally show ?thesis
    using ids ret ne by simp
qed

subsection \<open>match\<close>

text \<open>
  Claim C5 does not hold of the code. With both media devices found and opened and the
  links of the CIO2 disabled, a failure of \<^verbatim>\<open>disableLinks()\<close> on the ImgU media device makes
  \<^verbatim>\<open>match\<close> return whether the unassigned \<^verbatim>\<open>ret\<close> is 0: true when the variable holds 0,
  false when it holds 7.
\<close>

theorem match_after_imgu_disableLinks_failure:
  "disableLinks_ret example_enumerator ImguMedia = - 1
   \<and> fst (match example_enumerator) = True
   \<and> fst (match (example_enumerator\<lparr>uninit_ret := 7\<rparr>)) = False"
  by (simp add: match_def example_enumerator_def Let_def)

text \<open>
  What \<^verbatim>\<open>match\<close> returns in every case: true exactly when both media devices are found,
  both open, the links of the CIO2 media device are disabled, and then either the links of
  the ImgU media device are disabled and \<^verbatim>\<open>registerCameras\<close> returns 0, or disabling them
  fails and the unassigned \<^verbatim>\<open>ret\<close> holds 0.
\<close>

theorem match_result:
  "fst (match e) \<longleftrightarrow>
     cio2_found e \<and> imgu_found e \<and> open_ret e Cio2Media = 0
     \<and> disableLinks_ret e Cio2Media = 0 \<and> open_ret e ImguMedia = 0
     \<and> (if disableLinks_ret e ImguMedia = 0 then fst (registerCameras (devices e)) = 0
         else uninit_ret e = 0)"
  by (simp add: match_def Let_def split_beta)

end
